theory Spec2Isabelle
  imports Main "HOL-Library.Word"
begin

section \<open>Token-level benchmarks of \<^verbatim>\<open>scripts/bench_token.cpp\<close>\<close>

text \<open>
  The file registers, per operation category, named callables over byte strings and
  hands them to the benchmark runners of \<^verbatim>\<open>bench.hpp\<close>. A \<^verbatim>\<open>std::string_view\<close> is
  modelled by the list of its bytes; a byte is an \<open>8 word\<close>, read as
  \<^verbatim>\<open>unsigned char\<close> with \<open>unat\<close>. \<^verbatim>\<open>std::size_t\<close> is a \<open>64 word\<close>, the width of
  the targets the hardware-specific variants are written for.
\<close>

type_synonym byte = "8 word"
type_synonym string_view = "byte list"
type_synonym size_t = "64 word"

subsection \<open>Library primitives the callables use\<close>

text \<open>
  \<^verbatim>\<open>memcmp(p, q, n)\<close> of the C library: compares the first \<open>n\<close> bytes as
  \<^verbatim>\<open>unsigned char\<close>; the sign of the result is the sign of the difference of the first
  pair of bytes that differ, and the result is zero when there is none. The standard
  fixes the sign only; the model returns that difference, and the callables below look
  at nothing but the sign. Every call in the file passes an \<open>n\<close> that is at most the
  length of both arguments, so the last equation is reached with \<open>n = 0\<close> only.
\<close>

fun memcmp :: "string_view \<Rightarrow> string_view \<Rightarrow> nat \<Rightarrow> int" where
  "memcmp (x # xs) (y # ys) (Suc n) =
     (if x = y then memcmp xs ys n else int (unat x) - int (unat y))"
| "memcmp xs ys n = 0"

text \<open>
  \<^verbatim>\<open>std::char_traits<char>::compare(s1, s2, n)\<close>: lexicographic over the first \<open>n\<close>
  characters, with \<^verbatim>\<open>lt\<close> comparing as \<^verbatim>\<open>unsigned char\<close>; negative, zero or positive.
\<close>

fun traits_compare :: "string_view \<Rightarrow> string_view \<Rightarrow> nat \<Rightarrow> int" where
  "traits_compare (x # xs) (y # ys) (Suc n) =
     (if unat x < unat y then - 1
      else if unat y < unat x then 1
      else traits_compare xs ys n)"
| "traits_compare xs ys n = 0"

text \<open>
  \<^verbatim>\<open>std::basic_string_view::compare\<close>: compare the common length with the traits,
  and let the sizes decide when that part is equal.
\<close>

definition compare :: "string_view \<Rightarrow> string_view \<Rightarrow> int" where
  "compare a b =
     (let rlen = min (length a) (length b);
          result = traits_compare a b rlen
      in if result \<noteq> 0 then result
         else if length a < length b then - 1
         else if length a = length b then 0
         else 1)"

text \<open>\<^verbatim>\<open>operator==\<close> on two string views: \<^verbatim>\<open>lhs.compare(rhs) == 0\<close>.\<close>

definition string_view_eq :: "string_view \<Rightarrow> string_view \<Rightarrow> bool" where
  "string_view_eq a b = (compare a b = 0)"

subsection \<open>The callables defined in the file\<close>

datatype sz_ordering_t = sz_less_k | sz_equal_k | sz_greater_k

text \<open>The \<^verbatim>\<open>std::accumulate\<close> entry of \<^verbatim>\<open>checksum_functions\<close>.\<close>

definition checksum_std_accumulate :: "string_view \<Rightarrow> size_t" where
  "checksum_std_accumulate s = foldl (\<lambda>sum c. sum + ucast c) 0 s"

text \<open>The \<^verbatim>\<open>std::string_view.==\<close> and \<^verbatim>\<open>memcmp\<close> entries of \<^verbatim>\<open>equality_functions\<close>.\<close>

definition equality_string_view :: "string_view \<Rightarrow> string_view \<Rightarrow> bool" where
  "equality_string_view a b = string_view_eq a b"

definition equality_memcmp :: "string_view \<Rightarrow> string_view \<Rightarrow> bool" where
  "equality_memcmp a b = (length a = length b \<and> memcmp a b (length a) = 0)"

text \<open>
  The \<^verbatim>\<open>std::string_view.compare\<close> and \<^verbatim>\<open>memcmp\<close> entries of
  \<^verbatim>\<open>ordering_functions\<close>.
\<close>

definition ordering_string_view_compare :: "string_view \<Rightarrow> string_view \<Rightarrow> sz_ordering_t" where
  "ordering_string_view_compare a b =
     (let order = compare a b
      in if order = 0 then sz_equal_k else (if order < 0 then sz_less_k else sz_greater_k))"

definition ordering_memcmp :: "string_view \<Rightarrow> string_view \<Rightarrow> sz_ordering_t" where
  "ordering_memcmp a b =
     (let order = memcmp a b (if length a < length b then length a else length b)
      in if order \<noteq> 0
         then (if length a = length b
               then (if order < 0 then sz_less_k else sz_greater_k)
               else (if length a < length b then sz_less_k else sz_greater_k))
         else sz_equal_k)"

subsection \<open>The comparison the specification describes\<close>

text \<open>
  Written from the specification's words, to compare the callables with: two strings are
  equal iff their bytes are identical; otherwise the first differing byte decides; and a
  proper prefix orders before the longer string.
\<close>

fun lexicographic :: "string_view \<Rightarrow> string_view \<Rightarrow> sz_ordering_t" where
  "lexicographic [] [] = sz_equal_k"
| "lexicographic [] (y # ys) = sz_less_k"
| "lexicographic (x # xs) [] = sz_greater_k"
| "lexicographic (x # xs) (y # ys) =
     (if x = y then lexicographic xs ys
      else if unat x < unat y then sz_less_k else sz_greater_k)"

subsection \<open>What the file takes from its headers\<close>

text \<open>
  \<^verbatim>\<open>dataset_t\<close> is declared in \<^verbatim>\<open>bench.hpp\<close>; the file reads its members
  \<^verbatim>\<open>tokens\<close>, \<^verbatim>\<open>lines\<close> and \<^verbatim>\<open>text\<close> (here \<open>text_view\<close>).
\<close>

record dataset_t =
  tokens :: "string_view list"
  lines :: "string_view list"
  text_view :: string_view

text \<open>
  The parts of \<^verbatim>\<open>bench.hpp\<close> and of the string library that the file uses and does
  not define are parameters of the model:
  \<^item> the build switches \<^verbatim>\<open>SZ_USE_HASWELL\<close>, \<^verbatim>\<open>SZ_USE_SKYLAKE\<close>, \<^verbatim>\<open>SZ_USE_ICE\<close> and
    \<^verbatim>\<open>SZ_USE_NEON\<close>;
  \<^item> \<open>default_flag\<close>, the value the third member of a tracked function takes when an
    initializer gives a name and a callable only;
  \<^item> the kernels, each taking the data pointers and sizes its wrapper passes;
  \<^item> \<^verbatim>\<open>seconds_per_benchmark\<close>;
  \<^item> \<^verbatim>\<open>prepare_benchmark_environment\<close>, where \<open>None\<close> stands for a run that the
    preparation of the dataset ends.
\<close>

record externals =
  sz_use_haswell :: bool
  sz_use_skylake :: bool
  sz_use_ice :: bool
  sz_use_neon :: bool
  default_flag :: bool
  sz_checksum_serial :: "string_view \<Rightarrow> nat \<Rightarrow> size_t"
  sz_checksum_haswell :: "string_view \<Rightarrow> nat \<Rightarrow> size_t"
  sz_checksum_skylake :: "string_view \<Rightarrow> nat \<Rightarrow> size_t"
  sz_checksum_ice :: "string_view \<Rightarrow> nat \<Rightarrow> size_t"
  sz_checksum_neon :: "string_view \<Rightarrow> nat \<Rightarrow> size_t"
  sz_hash_serial :: "string_view \<Rightarrow> nat \<Rightarrow> size_t"
  std_hash :: "string_view \<Rightarrow> size_t"
  sz_equal_serial :: "string_view \<Rightarrow> string_view \<Rightarrow> nat \<Rightarrow> bool"
  sz_equal_haswell :: "string_view \<Rightarrow> string_view \<Rightarrow> nat \<Rightarrow> bool"
  sz_equal_skylake :: "string_view \<Rightarrow> string_view \<Rightarrow> nat \<Rightarrow> bool"
  sz_order_serial :: "string_view \<Rightarrow> nat \<Rightarrow> string_view \<Rightarrow> nat \<Rightarrow> sz_ordering_t"
  sz_order_haswell :: "string_view \<Rightarrow> nat \<Rightarrow> string_view \<Rightarrow> nat \<Rightarrow> sz_ordering_t"
  sz_order_skylake :: "string_view \<Rightarrow> nat \<Rightarrow> string_view \<Rightarrow> nat \<Rightarrow> sz_ordering_t"
  seconds_per_benchmark :: nat
  prepare_benchmark_environment :: "int \<Rightarrow> string list \<Rightarrow> dataset_t option"

text \<open>
  A tracked function: a name, a callable and a flag. The members are named as the
  specification's data model names them: \<open>(name, operation, is_baseline)\<close>.
\<close>

record 'f tracked_function =
  name :: string
  operation :: 'f
  is_baseline :: bool

type_synonym unary_function_t = "string_view \<Rightarrow> size_t"

text \<open>
  One registry type holds the equality callables, which answer a boolean, and the
  ordering callables, which answer an \<^verbatim>\<open>sz_ordering_t\<close>: one variant for each.
\<close>

datatype binary_function_t =
  Boolean_function "string_view \<Rightarrow> string_view \<Rightarrow> bool"
| Ordering_function "string_view \<Rightarrow> string_view \<Rightarrow> sz_ordering_t"

text \<open>What a callable of the equality category answers on a pair.\<close>

fun boolean_answer :: "binary_function_t \<Rightarrow> string_view \<Rightarrow> string_view \<Rightarrow> bool option" where
  "boolean_answer (Boolean_function f) a b = Some (f a b)"
| "boolean_answer (Ordering_function f) a b = None"

type_synonym tracked_unary_functions_t = "unary_function_t tracked_function list"
type_synonym tracked_binary_functions_t = "binary_function_t tracked_function list"

text \<open>
  The two shapes of initializer in the registries: \<^verbatim>\<open>{name, callable}\<close> and
  \<^verbatim>\<open>{name, callable, true}\<close>.
\<close>

definition tracked :: "externals \<Rightarrow> string \<Rightarrow> 'f \<Rightarrow> 'f tracked_function" where
  "tracked E n f = \<lparr>name = n, operation = f, is_baseline = default_flag E\<rparr>"

definition tracked_flagged :: "string \<Rightarrow> 'f \<Rightarrow> bool \<Rightarrow> 'f tracked_function" where
  "tracked_flagged n f b = \<lparr>name = n, operation = f, is_baseline = b\<rparr>"

subsection \<open>The registries\<close>

definition wrap_sz_unary :: "(string_view \<Rightarrow> nat \<Rightarrow> size_t) \<Rightarrow> unary_function_t" where
  "wrap_sz_unary f = (\<lambda>s. f s (length s))"

definition checksum_functions :: "externals \<Rightarrow> tracked_unary_functions_t" where
  "checksum_functions E =
     [tracked E ''std::accumulate'' checksum_std_accumulate,
      tracked_flagged ''sz_checksum_serial'' (wrap_sz_unary (sz_checksum_serial E)) True]
     @ (if sz_use_haswell E
        then [tracked_flagged ''sz_checksum_haswell'' (wrap_sz_unary (sz_checksum_haswell E)) True]
        else [])
     @ (if sz_use_skylake E
        then [tracked_flagged ''sz_checksum_skylake'' (wrap_sz_unary (sz_checksum_skylake E)) True]
        else [])
     @ (if sz_use_ice E
        then [tracked_flagged ''sz_checksum_ice'' (wrap_sz_unary (sz_checksum_ice E)) True]
        else [])
     @ (if sz_use_neon E
        then [tracked_flagged ''sz_checksum_neon'' (wrap_sz_unary (sz_checksum_neon E)) True]
        else [])"

definition hashing_functions :: "externals \<Rightarrow> tracked_unary_functions_t" where
  "hashing_functions E =
     [tracked E ''sz_hash_serial'' (wrap_sz_unary (sz_hash_serial E)),
      tracked E ''std::hash'' (\<lambda>s. std_hash E s)]"

definition wrap_sz_equality ::
  "(string_view \<Rightarrow> string_view \<Rightarrow> nat \<Rightarrow> bool) \<Rightarrow> string_view \<Rightarrow> string_view \<Rightarrow> bool" where
  "wrap_sz_equality f = (\<lambda>a b. length a = length b \<and> f a b (length a))"

text \<open>
  Modelled from the spec: the kernels \<^verbatim>\<open>sz_equal_serial\<close>, \<^verbatim>\<open>sz_equal_haswell\<close> and
  \<^verbatim>\<open>sz_equal_skylake\<close> of the string library are not in the file. An equality
  implementation answers as the baseline does, true iff the bytes compared are
  identical ("for every pair \<open>(a, c)\<close>, \<open>f(a, c) == b(a, c)\<close>"); a kernel is given two
  data pointers and one length, and compares that many bytes.
\<close>

definition sz_equal :: "string_view \<Rightarrow> string_view \<Rightarrow> nat \<Rightarrow> bool" where
  "sz_equal a b n = (take n a = take n b)"

definition equality_functions :: "externals \<Rightarrow> tracked_binary_functions_t" where
  "equality_functions E =
     [tracked E ''std::string_view.=='' (Boolean_function equality_string_view),
      tracked_flagged ''sz_equal_serial''
        (Boolean_function (wrap_sz_equality (sz_equal_serial E))) True]
     @ (if sz_use_haswell E
        then [tracked_flagged ''sz_equal_haswell''
                (Boolean_function (wrap_sz_equality (sz_equal_haswell E))) True]
        else [])
     @ (if sz_use_skylake E
        then [tracked_flagged ''sz_equal_skylake''
                (Boolean_function (wrap_sz_equality (sz_equal_skylake E))) True]
        else [])
     @ [tracked E ''memcmp'' (Boolean_function equality_memcmp)]"

definition wrap_sz_ordering ::
  "(string_view \<Rightarrow> nat \<Rightarrow> string_view \<Rightarrow> nat \<Rightarrow> sz_ordering_t) \<Rightarrow>
   string_view \<Rightarrow> string_view \<Rightarrow> sz_ordering_t" where
  "wrap_sz_ordering f = (\<lambda>a b. f a (length a) b (length b))"

definition ordering_functions :: "externals \<Rightarrow> tracked_binary_functions_t" where
  "ordering_functions E =
     [tracked E ''std::string_view.compare'' (Ordering_function ordering_string_view_compare),
      tracked_flagged ''sz_order_serial''
        (Ordering_function (wrap_sz_ordering (sz_order_serial E))) True]
     @ (if sz_use_haswell E
        then [tracked_flagged ''sz_order_haswell''
                (Ordering_function (wrap_sz_ordering (sz_order_haswell E))) True]
        else [])
     @ (if sz_use_skylake E
        then [tracked_flagged ''sz_order_skylake''
                (Ordering_function (wrap_sz_ordering (sz_order_skylake E))) True]
        else [])
     @ [tracked E ''memcmp'' (Ordering_function ordering_memcmp)]"

subsection \<open>The benchmark drivers\<close>

text \<open>
  The runners and \<^verbatim>\<open>printf\<close> act on the outside world only. A run is modelled by the
  list of these calls in the order they are made, each with its arguments; a
  \<^verbatim>\<open>printf\<close> keeps its format string and the values it formats.
\<close>

datatype call =
  Printf string "nat list"
| Bench_unary_functions "string_view list" tracked_unary_functions_t
| Bench_binary_functions "string_view list" tracked_binary_functions_t

text \<open>
  Modelled from the spec: \<^verbatim>\<open>filter_by_length\<close> of \<^verbatim>\<open>bench.hpp\<close> is not in the file.
  It "returns, preserving relative order, exactly the elements whose length equals
  \<open>length\<close>".
\<close>

definition filter_by_length :: "string_view list \<Rightarrow> nat \<Rightarrow> string_view list" where
  "filter_by_length corpus n = filter (\<lambda>s. length s = n) corpus"

text \<open>
  \<^verbatim>\<open>bench_dereferencing\<close> is given copies of the strings as \<^verbatim>\<open>std::string\<close> or as
  \<^verbatim>\<open>sz::string\<close>; both hold the bytes of the originals.
\<close>

definition bench_dereferencing :: "externals \<Rightarrow> string \<Rightarrow> string_view list \<Rightarrow> call list" where
  "bench_dereferencing E nm strings =
     (let func = (\<lambda>s. of_nat (length s));
          converts = [tracked E nm func]
      in [Bench_unary_functions strings converts])"

definition bench :: "externals \<Rightarrow> string_view list \<Rightarrow> call list" where
  "bench E strings =
     (if length strings = 0 then []
      else [Bench_unary_functions strings (checksum_functions E)]
         @ [Bench_unary_functions strings (hashing_functions E)]
         @ [Bench_binary_functions strings (equality_functions E)]
         @ [Bench_binary_functions strings (ordering_functions E)]
         @ bench_dereferencing E ''std::string -> std::string_view'' strings
         @ bench_dereferencing E ''sz::string -> std::string_view'' strings)"

text \<open>The loop of \<^verbatim>\<open>bench_on_input_data\<close> over the token lengths.\<close>

definition bench_token_lengths :: "externals \<Rightarrow> string_view list \<Rightarrow> nat list \<Rightarrow> call list" where
  "bench_token_lengths E toks ns =
     concat (map (\<lambda>token_length.
        Printf ''Benchmarking on real words of length %zu:\<newline>'' [token_length]
        # bench E (filter_by_length toks token_length)) ns)"

definition bench_on_input_data :: "externals \<Rightarrow> int \<Rightarrow> string list \<Rightarrow> call list option" where
  "bench_on_input_data E argc argv =
     (case prepare_benchmark_environment E argc argv of
        None \<Rightarrow> None
      | Some dataset \<Rightarrow> Some (
          [Printf ''Benchmarking on real words:\<newline>'' []]
          @ bench E (tokens dataset)
          @ [Printf ''Benchmarking on real lines:\<newline>'' []]
          @ bench E (lines dataset)
          @ [Printf ''Benchmarking on entire dataset:\<newline>'' []]
          @ bench E [text_view dataset]
          @ bench_token_lengths E (tokens dataset) [1, 2, 3, 4, 5, 6, 7, 8, 16, 32]))"

definition bench_on_synthetic_data :: "call list" where
  "bench_on_synthetic_data = []"

text \<open>
  \<^verbatim>\<open>main\<close> answers the calls it made and its exit code, \<open>None\<close> when the run ended
  before \<^verbatim>\<open>main\<close> returned.
\<close>

definition main :: "externals \<Rightarrow> int \<Rightarrow> string list \<Rightarrow> call list \<times> int option" where
  "main E argc argv =
     (let out = [Printf ''StringZilla. Starting token-level benchmarks.\<newline>'' [],
                 Printf ''- Seconds per benchmark: %zu\<newline>'' [seconds_per_benchmark E]]
      in if argc < 2
         then (out @ bench_on_synthetic_data @ [Printf ''All benchmarks passed.\<newline>'' []], Some 0)
         else (case bench_on_input_data E argc argv of
                 None \<Rightarrow> (out, None)
               | Some trace \<Rightarrow> (out @ trace @ [Printf ''All benchmarks passed.\<newline>'' []], Some 0)))"

subsection \<open>Random generation\<close>

text \<open>
  The callables write into a buffer shared by all of them and draw from a random source.
  The buffer is passed in and returned; the random source is the sequence of the values
  it will give, \<open>rand k\<close> being the value of the \<open>k\<close>-th draw of the call. A division
  by zero and an access outside an array have no defined behaviour in the source; the
  model stops there with an error.
\<close>

datatype error = Division_by_zero | Out_of_bounds | Empty_alphabet

type_synonym generation_function_t =
  "(nat \<Rightarrow> nat) \<Rightarrow> string_view \<Rightarrow> byte list \<Rightarrow> error + (byte list \<times> size_t)"

text \<open>\<^verbatim>\<open>std::to_string\<close> on a size: its decimal digits.\<close>

function to_string :: "nat \<Rightarrow> string" where
  "to_string n =
     (if n < 10 then [char_of (48 + n)]
      else to_string (n div 10) @ [char_of (48 + n mod 10)])"
  by pat_completeness auto
termination
  by (relation "measure (\<lambda>n. n)") auto

declare to_string.simps [simp del]

text \<open>\<^verbatim>\<open>std::vector<char>::resize\<close>: cut, or fill up with zero bytes.\<close>

definition resize :: "byte list \<Rightarrow> nat \<Rightarrow> byte list" where
  "resize v n = take n v @ replicate (n - length v) 0"

text \<open>
  The \<^verbatim>\<open>std::rand % uint8\<close> callable. Its divisor is the size of the alphabet cast to
  \<^verbatim>\<open>std::uint8_t\<close>; \<^verbatim>\<open>std::rand\<close> gives a value that is not negative, so \<^verbatim>\<open>%\<close> is
  \<open>mod\<close> where the divisor is not zero.
\<close>

definition max_alphabet_size :: "string_view \<Rightarrow> byte" where
  "max_alphabet_size alphabet = of_nat (length alphabet)"

definition rand_index :: "nat \<Rightarrow> byte \<Rightarrow> nat" where
  "rand_index r m = r mod unat m"

function rand_uint8_loop ::
  "(nat \<Rightarrow> nat) \<Rightarrow> string_view \<Rightarrow> byte \<Rightarrow> nat \<Rightarrow> nat \<Rightarrow> byte list \<Rightarrow> error + byte list" where
  "rand_uint8_loop rand alphabet m token_length i buffer =
     (if i < token_length
      then (if m = 0 then Inl Division_by_zero
            else if length alphabet \<le> rand_index (rand i) m then Inl Out_of_bounds
            else if length buffer \<le> i then Inl Out_of_bounds
            else rand_uint8_loop rand alphabet m token_length (Suc i)
                   (buffer[i := alphabet ! rand_index (rand i) m]))
      else Inr buffer)"
  by pat_completeness auto
termination
  by (relation "measure (\<lambda>(rand, alphabet, m, token_length, i, buffer). token_length - i)") auto

declare rand_uint8_loop.simps [simp del]

definition generate_std_rand_uint8 :: "size_t \<Rightarrow> generation_function_t" where
  "generate_std_rand_uint8 token_length = (\<lambda>rand alphabet buffer.
     (let max_alphabet_size = max_alphabet_size alphabet
      in case rand_uint8_loop rand alphabet max_alphabet_size (unat token_length) 0 buffer of
           Inl e \<Rightarrow> Inl e
         | Inr buffer' \<Rightarrow> Inr (buffer', token_length)))"

text \<open>
  Modelled from the spec: \<^verbatim>\<open>randomize_string\<close> of \<^verbatim>\<open>test.hpp\<close> and \<^verbatim>\<open>sz::randomize\<close>
  of the string library are not in the file. The random-fill primitive, "given a
  destination buffer, a length, and an alphabet (byte sequence), fills the buffer with
  exactly \<open>length\<close> bytes drawn from the alphabet; does not null-terminate or resize".
  A draw picks a member of the alphabet by its index. The specification does not say what
  happens when the alphabet has no member to draw or the buffer is shorter than the
  length; the model stops with an error.
\<close>

definition random_fill :: "(nat \<Rightarrow> nat) \<Rightarrow> byte list \<Rightarrow> nat \<Rightarrow> string_view \<Rightarrow> error + byte list" where
  "random_fill draws buffer len alphabet =
     (if len = 0 then Inr buffer
      else if alphabet = [] then Inl Empty_alphabet
      else if length buffer < len then Inl Out_of_bounds
      else Inr (map (\<lambda>i. alphabet ! (draws i mod length alphabet)) [0..<len] @ drop len buffer))"

definition generate_uniform_int_uint8 :: "size_t \<Rightarrow> generation_function_t" where
  "generate_uniform_int_uint8 token_length = (\<lambda>draws alphabet buffer.
     case random_fill draws buffer (unat token_length) alphabet of
       Inl e \<Rightarrow> Inl e
     | Inr buffer' \<Rightarrow> Inr (buffer', token_length))"

definition generate_sz_randomize :: "size_t \<Rightarrow> generation_function_t" where
  "generate_sz_randomize token_length = (\<lambda>draws alphabet buffer.
     case random_fill draws buffer (unat token_length) alphabet of
       Inl e \<Rightarrow> Inl e
     | Inr buffer' \<Rightarrow> Inr (buffer', token_length))"

text \<open>
  \<^verbatim>\<open>random_generation_functions\<close> grows the shared buffer to the token length when it
  is shorter, and builds the three callables.
\<close>

definition random_generation_functions ::
  "externals \<Rightarrow> size_t \<Rightarrow> byte list \<Rightarrow> byte list \<times> generation_function_t tracked_function list" where
  "random_generation_functions E token_length buffer =
     (let buffer' = (if length buffer < unat token_length
                     then resize buffer (unat token_length) else buffer);
          suffix = '', '' @ to_string (unat token_length) @ '' chars''
      in (buffer',
          [tracked E (''std::rand % uint8'' @ suffix) (generate_std_rand_uint8 token_length),
           tracked E (''std::uniform_int<uint8>'' @ suffix) (generate_uniform_int_uint8 token_length),
           tracked E (''sz::randomize'' @ suffix) (generate_sz_randomize token_length)]))"

text \<open>
  What the specification asks of one call of a generation callable: it returns
  \<open>token_length\<close>, the buffer keeps its length and its bytes from index \<open>token_length\<close>
  on, and the first \<open>token_length\<close> bytes are members of the alphabet.
\<close>

definition fills_token_length ::
  "generation_function_t \<Rightarrow> size_t \<Rightarrow> (nat \<Rightarrow> nat) \<Rightarrow> string_view \<Rightarrow> byte list \<Rightarrow> bool" where
  "fills_token_length f token_length rand alphabet buffer =
     (case f rand alphabet buffer of
        Inl e \<Rightarrow> False
      | Inr (buffer', bytes_written) \<Rightarrow>
          bytes_written = token_length
          \<and> length buffer' = length buffer
          \<and> drop (unat token_length) buffer' = drop (unat token_length) buffer
          \<and> set (take (unat token_length) buffer') \<subseteq> set alphabet)"

subsection \<open>A sample environment\<close>

text \<open>
  Concrete values for the parameters, to evaluate the definitions at: a build with no
  hardware-specific variant, a flag that is false when it is not given, kernels that
  compute what the callables of the file compute, and the dataset of the specification's
  scenario, \<^verbatim>\<open>tokens = ["cat", "dog", "cat"]\<close>.
\<close>

definition sample_dataset :: dataset_t where
  "sample_dataset =
     \<lparr>tokens = [[99, 97, 116], [100, 111, 103], [99, 97, 116]],
      lines = [[99, 97, 116, 32, 100, 111, 103, 32, 99, 97, 116]],
      text_view = [99, 97, 116, 32, 100, 111, 103, 32, 99, 97, 116]\<rparr>"

definition sample_externals :: externals where
  "sample_externals =
     \<lparr>sz_use_haswell = False, sz_use_skylake = False, sz_use_ice = False, sz_use_neon = False,
      default_flag = False,
      sz_checksum_serial = (\<lambda>s n. checksum_std_accumulate (take n s)),
      sz_checksum_haswell = (\<lambda>s n. checksum_std_accumulate (take n s)),
      sz_checksum_skylake = (\<lambda>s n. checksum_std_accumulate (take n s)),
      sz_checksum_ice = (\<lambda>s n. checksum_std_accumulate (take n s)),
      sz_checksum_neon = (\<lambda>s n. checksum_std_accumulate (take n s)),
      sz_hash_serial = (\<lambda>s n. checksum_std_accumulate (take n s)),
      std_hash = checksum_std_accumulate,
      sz_equal_serial = sz_equal,
      sz_equal_haswell = sz_equal,
      sz_equal_skylake = sz_equal,
      sz_order_serial = (\<lambda>a n b m. lexicographic (take n a) (take m b)),
      sz_order_haswell = (\<lambda>a n b m. lexicographic (take n a) (take m b)),
      sz_order_skylake = (\<lambda>a n b m. lexicographic (take n a) (take m b)),
      seconds_per_benchmark = 10,
      prepare_benchmark_environment = (\<lambda>argc argv. Some sample_dataset)\<rparr>"

definition sample_rand :: "nat \<Rightarrow> nat" where
  "sample_rand k = (1103515245 * k + 12345) mod 2147483648"

subsection \<open>What a run reports\<close>

text \<open>
  Modelled from the spec: the runners \<^verbatim>\<open>bench_unary_functions\<close> and
  \<^verbatim>\<open>bench_binary_functions\<close> of \<^verbatim>\<open>bench.hpp\<close> are not in the file. A runner reports,
  "per tracked function, \<open>(name, bytes_processed, elapsed_time, operations_count,
  mismatch_count)\<close>". What a runner reports for a corpus and a registry is a parameter;
  a run reports what its runner calls report, in order.
\<close>

record benchmark_result =
  result_name :: string
  bytes_processed :: nat
  elapsed_time :: nat
  operations_count :: nat
  mismatch_count :: nat

record runners =
  bench_unary_functions :: "string_view list \<Rightarrow> tracked_unary_functions_t \<Rightarrow> benchmark_result list"
  bench_binary_functions :: "string_view list \<Rightarrow> tracked_binary_functions_t \<Rightarrow> benchmark_result list"

fun reported :: "runners \<Rightarrow> call list \<Rightarrow> benchmark_result list" where
  "reported R [] = []"
| "reported R (Printf format_string args # calls) = reported R calls"
| "reported R (Bench_unary_functions strings fs # calls) =
     bench_unary_functions R strings fs @ reported R calls"
| "reported R (Bench_binary_functions strings fs # calls) =
     bench_binary_functions R strings fs @ reported R calls"

text \<open>The names of the tracked functions a call runs, and the corpus it runs them on.\<close>

fun call_names :: "call \<Rightarrow> string list" where
  "call_names (Printf format_string args) = []"
| "call_names (Bench_unary_functions strings fs) = map name fs"
| "call_names (Bench_binary_functions strings fs) = map name fs"

fun call_corpus :: "call \<Rightarrow> string_view list option" where
  "call_corpus (Printf format_string args) = None"
| "call_corpus (Bench_unary_functions strings fs) = Some strings"
| "call_corpus (Bench_binary_functions strings fs) = Some strings"

text \<open>A runner that counts the bytes of the corpus once for each tracked function.\<close>

definition sample_runners :: runners where
  "sample_runners =
     \<lparr>bench_unary_functions = (\<lambda>strings fs.
        map (\<lambda>f. \<lparr>result_name = name f, bytes_processed = sum_list (map length strings),
                   elapsed_time = 1, operations_count = length strings,
                   mismatch_count = 0\<rparr>) fs),
      bench_binary_functions = (\<lambda>strings fs.
        map (\<lambda>f. \<lparr>result_name = name f, bytes_processed = sum_list (map length strings),
                   elapsed_time = 1, operations_count = length strings,
                   mismatch_count = 0\<rparr>) fs)\<rparr>"

text \<open>The sample environment with a dataset that has no tokens.\<close>

definition sample_externals_no_tokens :: externals where
  "sample_externals_no_tokens =
     sample_externals\<lparr>prepare_benchmark_environment :=
       (\<lambda>argc argv. Some (sample_dataset\<lparr>tokens := []\<rparr>))\<rparr>"

section \<open>Properties\<close>

subsection \<open>The library primitives\<close>

lemma byte_difference_nonzero: "x \<noteq> y \<Longrightarrow> int (unat (x::byte)) - int (unat y) \<noteq> 0"
  by (simp add: word_uint_eq_iff)

lemma memcmp_zero_iff:
  "n \<le> length a \<Longrightarrow> n \<le> length b \<Longrightarrow> (memcmp a b n = 0) = (take n a = take n b)"
proof (induction a b n rule: memcmp.induct)
  case (1 x xs y ys n)
  then show ?case using byte_difference_nonzero [of x y] by auto
qed auto

lemma memcmp_swap: "memcmp b a n = - memcmp a b n"
  by (induction a b n rule: memcmp.induct) auto

lemma memcmp_same: "memcmp s s n = 0"
proof (induction s arbitrary: n)
  case (Cons x xs)
  then show ?case by (cases n) auto
qed simp

lemma compare_Nil_Nil: "compare [] [] = 0"
  by (simp add: compare_def)

lemma compare_Nil_Cons: "compare [] (y # ys) = - 1"
  by (simp add: compare_def)

lemma compare_Cons_Nil: "compare (x # xs) [] = 1"
  by (simp add: compare_def)

lemma compare_Cons_Cons:
  "compare (x # xs) (y # ys) =
     (if unat x < unat y then - 1 else if unat y < unat x then 1 else compare xs ys)"
  by (simp add: compare_def Let_def)

lemma byte_order_cases: "x \<noteq> y \<Longrightarrow> unat (x::byte) < unat y \<or> unat y < unat x"
  by (auto simp: word_unat_eq_iff)

subsection \<open>The specification's comparison is the lexicographic one\<close>

lemma lexicographic_equal_iff: "(lexicographic a c = sz_equal_k) = (a = c)"
  by (induction a c rule: lexicographic.induct) auto

lemma lexicographic_proper_prefix: "lexicographic a (a @ y # r) = sz_less_k"
  by (induction a) auto

lemma lexicographic_first_difference:
  "x \<noteq> y \<Longrightarrow>
   lexicographic (p @ x # r) (p @ y # r') = (if unat x < unat y then sz_less_k else sz_greater_k)"
  by (induction p) auto

lemma lexicographic_antisym:
  "lexicographic a c = sz_less_k \<Longrightarrow> lexicographic c a = sz_greater_k"
  by (induction a c rule: lexicographic.induct) (auto split: if_splits simp: word_unat_eq_iff)

subsection \<open>Ordering\<close>

text \<open>
  The \<^verbatim>\<open>std::string_view.compare\<close> entry is the lexicographic comparison, on every pair.
\<close>

lemma ordering_string_view_compare_lexicographic:
  "ordering_string_view_compare a b = lexicographic a b"
proof (induction a b rule: lexicographic.induct)
  case (4 x xs y ys)
  show ?case
  proof (cases "x = y")
    case True
    with 4 show ?thesis
      by (simp add: ordering_string_view_compare_def compare_Cons_Cons)
  next
    case False
    then show ?thesis using byte_order_cases [of x y]
      by (auto simp: ordering_string_view_compare_def compare_Cons_Cons)
  qed
qed (simp_all add: ordering_string_view_compare_def compare_Nil_Nil compare_Nil_Cons
       compare_Cons_Nil)

lemma compare_zero_iff: "(compare a b = 0) = (a = b)"
  using ordering_string_view_compare_lexicographic [of a b] lexicographic_equal_iff [of a b]
  by (auto simp: ordering_string_view_compare_def Let_def split: if_splits)

lemma ordering_memcmp_same: "ordering_memcmp s s = sz_equal_k"
  by (simp add: ordering_memcmp_def memcmp_same)

lemma ordering_memcmp_antisym:
  "ordering_memcmp a c = sz_less_k \<Longrightarrow> ordering_memcmp c a = sz_greater_k"
  using memcmp_swap [of c a "length a"] memcmp_swap [of c a "length c"]
  by (auto simp: ordering_memcmp_def Let_def split: if_splits)

text \<open>
  The \<^verbatim>\<open>memcmp\<close> entry answers \<^verbatim>\<open>sz_equal_k\<close> whenever the common prefix is equal,
  whatever the sizes, and lets the sizes decide when the common prefix differs.
\<close>

lemma ordering_memcmp_prefix: "ordering_memcmp a (a @ r) = sz_equal_k"
proof -
  have "memcmp a (a @ r) (length a) = 0"
    using memcmp_zero_iff [of "length a" a "a @ r"] by simp
  then show ?thesis by (simp add: ordering_memcmp_def memcmp_same Let_def)
qed

text \<open>
  C1. Each ordering entry defined in the file should answer as the lexicographic byte-wise
  comparison does. The \<^verbatim>\<open>std::string_view.compare\<close> entry does
  (\<open>ordering_string_view_compare_lexicographic\<close>); the \<^verbatim>\<open>memcmp\<close> entry does not:
  on \<^verbatim>\<open>("ab", "abc")\<close> it answers equal where the shorter string orders first, and on
  \<^verbatim>\<open>("b", "ab")\<close> it answers less where the first differing byte says greater.
\<close>

theorem ordering_memcmp_not_lexicographic:
  "ordering_memcmp [97, 98] [97, 98, 99] = sz_equal_k
   \<and> lexicographic [97, 98] [97, 98, 99] = sz_less_k
   \<and> ordering_string_view_compare [97, 98] [97, 98, 99] = sz_less_k
   \<and> ordering_memcmp [98] [97, 98] = sz_less_k
   \<and> lexicographic [98] [97, 98] = sz_greater_k
   \<and> ordering_string_view_compare [98] [97, 98] = sz_greater_k"
  by (simp add: ordering_memcmp_def ordering_string_view_compare_def compare_def)

text \<open>
  C9. Both ordering entries defined in the file answer equal on a string and itself, and
  both are antisymmetric: less one way round is greater the other way round.
\<close>

theorem ordering_reflexive_antisymmetric:
  "ordering_string_view_compare s s = sz_equal_k
   \<and> ordering_memcmp s s = sz_equal_k
   \<and> (ordering_string_view_compare a c = sz_less_k
        \<longrightarrow> ordering_string_view_compare c a = sz_greater_k)
   \<and> (ordering_memcmp a c = sz_less_k \<longrightarrow> ordering_memcmp c a = sz_greater_k)"
proof -
  have "ordering_string_view_compare s s = sz_equal_k"
    by (simp add: ordering_string_view_compare_lexicographic lexicographic_equal_iff)
  moreover have "ordering_memcmp s s = sz_equal_k"
    by (rule ordering_memcmp_same)
  moreover have "ordering_string_view_compare a c = sz_less_k
      \<longrightarrow> ordering_string_view_compare c a = sz_greater_k"
    by (simp add: ordering_string_view_compare_lexicographic lexicographic_antisym)
  moreover have "ordering_memcmp a c = sz_less_k \<longrightarrow> ordering_memcmp c a = sz_greater_k"
    by (simp add: ordering_memcmp_antisym)
  ultimately show ?thesis by blast
qed

theorem ordering_reflexive_antisymmetric_witness:
  "ordering_string_view_compare [99, 97, 116] [100, 111, 103] = sz_less_k
   \<and> ordering_string_view_compare [100, 111, 103] [99, 97, 116] = sz_greater_k
   \<and> ordering_memcmp [99, 97, 116] [100, 111, 103] = sz_less_k
   \<and> ordering_memcmp [100, 111, 103] [99, 97, 116] = sz_greater_k
   \<and> ordering_memcmp [99, 97, 116] [99, 97, 116] = sz_equal_k"
proof -
  have l1: "ordering_string_view_compare [99, 97, 116] [100, 111, 103] = sz_less_k"
    by (simp add: ordering_string_view_compare_def compare_def)
  have l2: "ordering_memcmp [99, 97, 116] [100, 111, 103] = sz_less_k"
    by (simp add: ordering_memcmp_def)
  show ?thesis
    using l1 l2
      ordering_reflexive_antisymmetric [of "[99, 97, 116]" "[99, 97, 116]" "[100, 111, 103]"]
    by simp
qed

subsection \<open>Equality\<close>

lemma equality_memcmp_iff: "equality_memcmp a b = (a = b)"
  using memcmp_zero_iff [of "length a" a b]
  by (auto simp: equality_memcmp_def)

lemma equality_string_view_iff: "equality_string_view a b = (a = b)"
  by (simp add: equality_string_view_def string_view_eq_def compare_zero_iff)

text \<open>
  The entries built by \<^verbatim>\<open>wrap_sz\<close> answer false on two strings of different lengths,
  and otherwise what their kernel answers on the whole length.
\<close>

lemma wrap_sz_equality_self: "wrap_sz_equality f s s = f s s (length s)"
  by (simp add: wrap_sz_equality_def)

lemma wrap_sz_equality_lengths: "wrap_sz_equality f a b \<Longrightarrow> length a = length b"
  by (simp add: wrap_sz_equality_def)

lemma wrap_sz_equality_sz_equal: "wrap_sz_equality sz_equal a b = (a = b)"
  by (auto simp: wrap_sz_equality_def sz_equal_def)

lemma equality_functions_answers:
  assumes "sz_equal_serial E = sz_equal"
    and "sz_use_haswell E \<longrightarrow> sz_equal_haswell E = sz_equal"
    and "sz_use_skylake E \<longrightarrow> sz_equal_skylake E = sz_equal"
    and "g \<in> set (equality_functions E)"
  shows "boolean_answer (operation g) a b = Some (a = b)"
  using assms
  by (auto simp: equality_functions_def tracked_def tracked_flagged_def
      wrap_sz_equality_sz_equal equality_memcmp_iff equality_string_view_iff
      split: if_splits)

text \<open>
  C3. The \<^verbatim>\<open>memcmp\<close> entry of \<^verbatim>\<open>equality_functions\<close> answers as the
  \<^verbatim>\<open>std::string_view.==\<close> entry does on every pair: true iff the two strings have the
  same length and the same bytes, that is, are the same byte list. Both answer true on
  a string and itself. An entry built by \<^verbatim>\<open>wrap_sz\<close> answers on a string and itself
  what its kernel answers there, and with a kernel that compares the bytes it answers
  as the other two do. So with such kernels every entry of the registry answers, on
  every pair, whether the two strings are the same, and true on a string and itself.
\<close>

theorem equality_entries_agree:
  "equality_memcmp a b = equality_string_view a b
   \<and> equality_string_view a b = (a = b)
   \<and> equality_memcmp s s
   \<and> equality_string_view s s
   \<and> wrap_sz_equality f s s = f s s (length s)
   \<and> wrap_sz_equality sz_equal a b = (a = b)
   \<and> wrap_sz_equality sz_equal s s
   \<and> (sz_equal_serial E = sz_equal
        \<and> (sz_use_haswell E \<longrightarrow> sz_equal_haswell E = sz_equal)
        \<and> (sz_use_skylake E \<longrightarrow> sz_equal_skylake E = sz_equal) \<longrightarrow>
          (\<forall>g \<in> set (equality_functions E). boolean_answer (operation g) a b = Some (a = b))
        \<and> (\<forall>g \<in> set (equality_functions E). boolean_answer (operation g) s s = Some True))"
proof -
  have "boolean_answer (operation g) x y = Some (x = y)"
    if "sz_equal_serial E = sz_equal
        \<and> (sz_use_haswell E \<longrightarrow> sz_equal_haswell E = sz_equal)
        \<and> (sz_use_skylake E \<longrightarrow> sz_equal_skylake E = sz_equal)"
      and "g \<in> set (equality_functions E)" for g x y
    using that equality_functions_answers [of E g x y] by blast
  then have "sz_equal_serial E = sz_equal
        \<and> (sz_use_haswell E \<longrightarrow> sz_equal_haswell E = sz_equal)
        \<and> (sz_use_skylake E \<longrightarrow> sz_equal_skylake E = sz_equal) \<longrightarrow>
          (\<forall>g \<in> set (equality_functions E). boolean_answer (operation g) a b = Some (a = b))
        \<and> (\<forall>g \<in> set (equality_functions E). boolean_answer (operation g) s s = Some True)"
    by simp
  then show ?thesis
    by (simp add: equality_memcmp_iff equality_string_view_iff wrap_sz_equality_self
        wrap_sz_equality_sz_equal sz_equal_def)
qed

theorem equality_entries_agree_witness:
  "sz_equal_serial sample_externals = sz_equal
   \<and> \<not> sz_use_haswell sample_externals
   \<and> \<not> sz_use_skylake sample_externals
   \<and> map name (equality_functions sample_externals)
       = [''std::string_view.=='', ''sz_equal_serial'', ''memcmp'']
   \<and> list_all (\<lambda>g. boolean_answer (operation g) [99, 97, 116] [99, 97, 116] = Some True)
        (equality_functions sample_externals)
   \<and> list_all (\<lambda>g. boolean_answer (operation g) [99, 97, 116] [100, 111, 103] = Some False)
        (equality_functions sample_externals)"
proof -
  have k: "sz_equal_serial sample_externals = sz_equal"
    by (simp add: sample_externals_def)
  have h: "\<not> sz_use_haswell sample_externals" and s: "\<not> sz_use_skylake sample_externals"
    by (simp_all add: sample_externals_def)
  have n: "map name (equality_functions sample_externals)
       = [''std::string_view.=='', ''sz_equal_serial'', ''memcmp'']"
    by (simp add: equality_functions_def tracked_def tracked_flagged_def sample_externals_def)
  have d: "([99, 97, 116] = [100, 111, 103 :: byte]) = False"
    by simp
  show ?thesis
    unfolding list_all_iff
    using k h s n
      equality_entries_agree [of "[99, 97, 116]" "[100, 111, 103]" "[99, 97, 116]"
        sz_equal sample_externals]
    unfolding d by blast
qed

subsection \<open>Checksum\<close>

lemma foldl_accumulate:
  "foldl (\<lambda>sum c. sum + ucast c) (acc::size_t) (s::string_view)
     = acc + of_nat (sum_list (map unat s))"
  by (induction s arbitrary: acc) (simp_all add: add.assoc)

lemma checksum_std_accumulate_mod:
  "unat (checksum_std_accumulate s) = sum_list (map unat s) mod 2 ^ 64"
  by (simp add: checksum_std_accumulate_def foldl_accumulate unat_of_nat)

lemma sum_bytes_le: "sum_list (map unat (s::string_view)) \<le> 255 * length s"
proof (induction s)
  case (Cons x xs)
  have "unat x < 2 ^ 8" using unsigned_less [of x] by simp
  with Cons show ?case by simp
qed simp

lemma checksum_std_accumulate_exact:
  assumes "length s < 2 ^ 56"
  shows "unat (checksum_std_accumulate s) = sum_list (map unat s)"
proof -
  have "sum_list (map unat s) \<le> 255 * length s" by (rule sum_bytes_le)
  also have "\<dots> < 256 * 2 ^ 56" using assms by simp
  finally have "sum_list (map unat s) < 2 ^ 64" by simp
  then show ?thesis by (simp add: checksum_std_accumulate_mod)
qed

text \<open>
  C8. The \<^verbatim>\<open>std::accumulate\<close> checksum is the sum of the bytes of its input, each read
  as an unsigned byte. The accumulator is a \<^verbatim>\<open>std::size_t\<close>, so the sum is taken modulo
  \<open>2 ^ 64\<close>; that is the plain sum for every string shorter than \<open>2 ^ 56\<close> bytes, which
  is every string a 64-bit address space can hold. On \<^verbatim>\<open>"cat"\<close> it is 312.
\<close>

theorem checksum_std_accumulate_sum:
  "unat (checksum_std_accumulate s) = sum_list (map unat s) mod 2 ^ 64
   \<and> (length s < 2 ^ 56 \<longrightarrow> unat (checksum_std_accumulate s) = sum_list (map unat s))
   \<and> checksum_std_accumulate [99, 97, 116] = 312"
proof -
  have "checksum_std_accumulate [99, 97, 116] = 312"
    by (simp add: checksum_std_accumulate_def)
  then show ?thesis
    using checksum_std_accumulate_mod [of s] checksum_std_accumulate_exact [of s] by blast
qed

theorem checksum_std_accumulate_sum_witness:
  "length [99, 97, 116 :: byte] < 2 ^ 56
   \<and> unat (checksum_std_accumulate [99, 97, 116]) = 99 + 97 + 116"
  using checksum_std_accumulate_sum [of "[99, 97, 116]"] by simp

subsection \<open>Random generation\<close>

lemma unat_max_alphabet_size: "unat (max_alphabet_size alphabet) = length alphabet mod 256"
  by (simp add: max_alphabet_size_def unat_of_nat)

lemma max_alphabet_size_zero_iff: "(max_alphabet_size alphabet = 0) = (length alphabet mod 256 = 0)"
  using unat_max_alphabet_size [of alphabet] unat_0_iff [of "max_alphabet_size alphabet"]
  by auto

lemma rand_index_less:
  assumes "length alphabet mod 256 \<noteq> 0"
  shows "rand_index r (max_alphabet_size alphabet) < length alphabet"
proof -
  have "r mod (length alphabet mod 256) < length alphabet mod 256"
    using assms by simp
  also have "\<dots> \<le> length alphabet" by simp
  finally show ?thesis by (simp add: rand_index_def unat_max_alphabet_size)
qed

lemma rand_uint8_loop_fills:
  assumes "m \<noteq> 0" and "\<forall>r. rand_index r m < length alphabet"
    and "n \<le> length buffer" and "i \<le> n"
  shows "\<exists>buffer'. rand_uint8_loop rand alphabet m n i buffer = Inr buffer'
           \<and> length buffer' = length buffer
           \<and> take i buffer' = take i buffer
           \<and> drop n buffer' = drop n buffer
           \<and> (\<forall>j. i \<le> j \<and> j < n \<longrightarrow> buffer' ! j \<in> set alphabet)"
  using assms
proof (induction rand alphabet m n i buffer rule: rand_uint8_loop.induct)
  case (1 rand alphabet m n i buffer)
  show ?case
  proof (cases "i < n")
    case False
    with 1(5) have "i = n" by simp
    then have "rand_uint8_loop rand alphabet m n i buffer = Inr buffer"
      by (subst rand_uint8_loop.simps) simp
    with \<open>i = n\<close> show ?thesis by auto
  next
    case True
    let ?b = "buffer[i := alphabet ! rand_index (rand i) m]"
    have idx: "rand_index (rand i) m < length alphabet" using 1 by blast
    have ib: "i < length buffer" using True 1 by simp
    have step: "rand_uint8_loop rand alphabet m n i buffer
                  = rand_uint8_loop rand alphabet m n (Suc i) ?b"
      using True idx ib \<open>m \<noteq> 0\<close> by (subst rand_uint8_loop.simps) simp
    have "\<exists>buffer'. rand_uint8_loop rand alphabet m n (Suc i) ?b = Inr buffer'
           \<and> length buffer' = length ?b
           \<and> take (Suc i) buffer' = take (Suc i) ?b
           \<and> drop n buffer' = drop n ?b
           \<and> (\<forall>j. Suc i \<le> j \<and> j < n \<longrightarrow> buffer' ! j \<in> set alphabet)"
      using "1.IH" [OF True] True idx ib 1(2-4) by simp
    then obtain buffer' where r: "rand_uint8_loop rand alphabet m n (Suc i) ?b = Inr buffer'"
      and len: "length buffer' = length ?b"
      and tk: "take (Suc i) buffer' = take (Suc i) ?b"
      and dr: "drop n buffer' = drop n ?b"
      and mem: "\<forall>j. Suc i \<le> j \<and> j < n \<longrightarrow> buffer' ! j \<in> set alphabet"
      by blast
    have "take i (take (Suc i) buffer') = take i (take (Suc i) ?b)" using tk by simp
    then have tk': "take i buffer' = take i buffer" by (simp add: min_def)
    have "buffer' ! i = take (Suc i) buffer' ! i" by simp
    also have "\<dots> = take (Suc i) ?b ! i" using tk by simp
    also have "\<dots> = alphabet ! rand_index (rand i) m" using ib by simp
    finally have at_i: "buffer' ! i \<in> set alphabet" using idx by simp
    have dr': "drop n buffer' = drop n buffer" using dr True by simp
    have mem': "\<forall>j. i \<le> j \<and> j < n \<longrightarrow> buffer' ! j \<in> set alphabet"
    proof (intro allI impI)
      fix j assume "i \<le> j \<and> j < n"
      then show "buffer' ! j \<in> set alphabet"
        using at_i mem by (cases "j = i") auto
    qed
    show ?thesis using step r len tk' dr' mem' by simp
  qed
qed

lemma set_take_subset:
  assumes "n \<le> length xs" and "\<forall>j. j < n \<longrightarrow> xs ! j \<in> A"
  shows "set (take n xs) \<subseteq> A"
proof
  fix x assume "x \<in> set (take n xs)"
  then obtain j where "j < length (take n xs)" and "take n xs ! j = x"
    by (auto simp: in_set_conv_nth)
  then show "x \<in> A" using assms by auto
qed

lemma generate_std_rand_uint8_fills:
  assumes "length alphabet mod 256 \<noteq> 0" and "unat token_length \<le> length buffer"
  shows "\<exists>buffer'. generate_std_rand_uint8 token_length rand alphabet buffer
             = Inr (buffer', token_length)
           \<and> length buffer' = length buffer
           \<and> drop (unat token_length) buffer' = drop (unat token_length) buffer
           \<and> set (take (unat token_length) buffer') \<subseteq> set alphabet"
proof -
  have m: "max_alphabet_size alphabet \<noteq> 0"
    using assms(1) by (simp add: max_alphabet_size_zero_iff)
  have idx: "\<forall>r. rand_index r (max_alphabet_size alphabet) < length alphabet"
    using assms(1) by (simp add: rand_index_less)
  obtain buffer' where
    r: "rand_uint8_loop rand alphabet (max_alphabet_size alphabet) (unat token_length) 0 buffer
          = Inr buffer'"
    and len: "length buffer' = length buffer"
    and dr: "drop (unat token_length) buffer' = drop (unat token_length) buffer"
    and mem: "\<forall>j. 0 \<le> j \<and> j < unat token_length \<longrightarrow> buffer' ! j \<in> set alphabet"
    using rand_uint8_loop_fills [OF m idx assms(2), of 0 rand] by auto
  have "set (take (unat token_length) buffer') \<subseteq> set alphabet"
    using set_take_subset [of "unat token_length" buffer' "set alphabet"] len assms(2) mem
    by simp
  then show ?thesis using r len dr by (simp add: generate_std_rand_uint8_def)
qed

lemma random_fill_fills:
  assumes "alphabet \<noteq> []" and "len \<le> length buffer"
  shows "\<exists>buffer'. random_fill draws buffer len alphabet = Inr buffer'
           \<and> length buffer' = length buffer
           \<and> drop len buffer' = drop len buffer
           \<and> set (take len buffer') \<subseteq> set alphabet"
proof (cases "len = 0")
  case True
  then show ?thesis by (simp add: random_fill_def)
next
  case False
  let ?w = "map (\<lambda>i. alphabet ! (draws i mod length alphabet)) [0..<len]"
  have r: "random_fill draws buffer len alphabet = Inr (?w @ drop len buffer)"
    using False assms by (simp add: random_fill_def)
  have "set ?w \<subseteq> set alphabet" using assms(1) by auto
  then show ?thesis using r assms(2) by simp
qed

lemma generate_uniform_int_uint8_fills:
  assumes "alphabet \<noteq> []" and "unat token_length \<le> length buffer"
  shows "\<exists>buffer'. generate_uniform_int_uint8 token_length draws alphabet buffer
             = Inr (buffer', token_length)
           \<and> length buffer' = length buffer
           \<and> drop (unat token_length) buffer' = drop (unat token_length) buffer
           \<and> set (take (unat token_length) buffer') \<subseteq> set alphabet"
  using random_fill_fills [OF assms, of draws]
  by (auto simp: generate_uniform_int_uint8_def)

lemma generate_sz_randomize_fills:
  assumes "alphabet \<noteq> []" and "unat token_length \<le> length buffer"
  shows "\<exists>buffer'. generate_sz_randomize token_length draws alphabet buffer
             = Inr (buffer', token_length)
           \<and> length buffer' = length buffer
           \<and> drop (unat token_length) buffer' = drop (unat token_length) buffer
           \<and> set (take (unat token_length) buffer') \<subseteq> set alphabet"
  using random_fill_fills [OF assms, of draws]
  by (auto simp: generate_sz_randomize_def)

lemma random_generation_functions_operations:
  "map operation (snd (random_generation_functions E token_length buffer0))
     = [generate_std_rand_uint8 token_length,
        generate_uniform_int_uint8 token_length,
        generate_sz_randomize token_length]"
  by (simp add: random_generation_functions_def tracked_def Let_def)

lemma random_generation_functions_buffer:
  "unat token_length \<le> length (fst (random_generation_functions E token_length buffer0))"
  by (simp add: random_generation_functions_def resize_def Let_def)

lemma rand_uint8_loop_zero_divisor:
  "i < n \<Longrightarrow> rand_uint8_loop rand alphabet 0 n i buffer = Inl Division_by_zero"
  by (subst rand_uint8_loop.simps) simp

lemma rand_uint8_loop_done:
  "\<not> i < n \<Longrightarrow> rand_uint8_loop rand alphabet m n i buffer = Inr buffer"
  by (subst rand_uint8_loop.simps) simp

text \<open>
  With a byte to write and no member of the alphabet to write, no callable whatever can
  do what is asked of it.
\<close>

lemma fills_token_length_empty_alphabet:
  assumes "0 < unat token_length" and "unat token_length \<le> length buffer"
  shows "\<not> fills_token_length f token_length rand [] buffer"
proof
  assume "fills_token_length f token_length rand [] buffer"
  then obtain buffer' where "length buffer' = length buffer"
    and "set (take (unat token_length) buffer') \<subseteq> set ([] :: byte list)"
    by (auto simp: fills_token_length_def split: sum.splits prod.splits)
  then have "take (unat token_length) buffer' = []" by simp
  then show False using assms \<open>length buffer' = length buffer\<close> by auto
qed

text \<open>Exactly when each callable does what is asked of it.\<close>

lemma generate_std_rand_uint8_fills_iff:
  assumes "unat token_length \<le> length buffer"
  shows "fills_token_length (generate_std_rand_uint8 token_length) token_length rand alphabet buffer
           = (unat token_length = 0 \<or> length alphabet mod 256 \<noteq> 0)"
proof (cases "length alphabet mod 256 = 0")
  case False
  then show ?thesis
    using generate_std_rand_uint8_fills [OF False assms, of rand]
    by (auto simp: fills_token_length_def)
next
  case True
  then have z: "max_alphabet_size alphabet = 0"
    by (simp add: max_alphabet_size_zero_iff)
  show ?thesis
  proof (cases "unat token_length = 0")
    case True
    then show ?thesis
      by (simp add: fills_token_length_def generate_std_rand_uint8_def rand_uint8_loop_done)
  next
    case False
    then show ?thesis using True z
      by (simp add: fills_token_length_def generate_std_rand_uint8_def
          rand_uint8_loop_zero_divisor)
  qed
qed

lemma random_fill_empty_alphabet:
  "0 < len \<Longrightarrow> random_fill draws buffer len [] = Inl Empty_alphabet"
  by (simp add: random_fill_def)

lemma generate_uniform_int_uint8_fills_iff:
  assumes "unat token_length \<le> length buffer"
  shows "fills_token_length (generate_uniform_int_uint8 token_length) token_length draws
           alphabet buffer
           = (unat token_length = 0 \<or> alphabet \<noteq> [])"
proof (cases "alphabet = []")
  case False
  then show ?thesis
    using generate_uniform_int_uint8_fills [OF False assms, of draws]
    by (auto simp: fills_token_length_def)
next
  case True
  then show ?thesis
    by (cases "unat token_length = 0")
      (simp_all add: fills_token_length_def generate_uniform_int_uint8_def random_fill_def)
qed

lemma generate_sz_randomize_fills_iff:
  assumes "unat token_length \<le> length buffer"
  shows "fills_token_length (generate_sz_randomize token_length) token_length draws
           alphabet buffer
           = (unat token_length = 0 \<or> alphabet \<noteq> [])"
proof (cases "alphabet = []")
  case False
  then show ?thesis
    using generate_sz_randomize_fills [OF False assms, of draws]
    by (auto simp: fills_token_length_def)
next
  case True
  then show ?thesis
    by (cases "unat token_length = 0")
      (simp_all add: fills_token_length_def generate_sz_randomize_def random_fill_def)
qed

text \<open>
  C4, as the file has it. On a buffer that holds at least \<open>token_length\<close> bytes, as the
  one \<^verbatim>\<open>random_generation_functions\<close> leaves does, each of the three callables
  returns \<open>token_length\<close>, leaves the length of the buffer and its bytes from index
  \<open>token_length\<close> on as they were, and leaves members of the alphabet in the first
  \<open>token_length\<close> bytes, exactly when it has no byte to write or the alphabet suits it:
  for the \<^verbatim>\<open>std::rand % uint8\<close> callable, an alphabet whose size is not a multiple of
  256; for the \<^verbatim>\<open>std::uniform_int<uint8>\<close> and \<^verbatim>\<open>sz::randomize\<close> callables, an alphabet
  that is not empty.
\<close>

theorem random_generation_fills_token_length:
  assumes "unat token_length \<le> length buffer"
  shows "map operation (snd (random_generation_functions E token_length buffer0))
           = [generate_std_rand_uint8 token_length,
              generate_uniform_int_uint8 token_length,
              generate_sz_randomize token_length]
    \<and> fills_token_length (generate_std_rand_uint8 token_length) token_length rand alphabet buffer
        = (unat token_length = 0 \<or> length alphabet mod 256 \<noteq> 0)
    \<and> fills_token_length (generate_uniform_int_uint8 token_length) token_length rand
          alphabet buffer
        = (unat token_length = 0 \<or> alphabet \<noteq> [])
    \<and> fills_token_length (generate_sz_randomize token_length) token_length rand alphabet buffer
        = (unat token_length = 0 \<or> alphabet \<noteq> [])
    \<and> unat token_length \<le> length (fst (random_generation_functions E token_length buffer0))"
  using random_generation_functions_operations [of E token_length buffer0]
    generate_std_rand_uint8_fills_iff [OF assms, of rand alphabet]
    generate_uniform_int_uint8_fills_iff [OF assms, of rand alphabet]
    generate_sz_randomize_fills_iff [OF assms, of rand alphabet]
    random_generation_functions_buffer [of token_length E buffer0]
  by blast

theorem random_generation_fills_token_length_witness:
  "unat (2 :: size_t) \<le> length [0, 0, 0 :: byte]
   \<and> map operation (snd (random_generation_functions sample_externals 2 []))
       = [generate_std_rand_uint8 2, generate_uniform_int_uint8 2, generate_sz_randomize 2]
   \<and> fills_token_length (generate_std_rand_uint8 2) 2 sample_rand [97, 98, 99] [0, 0, 0]
   \<and> fills_token_length (generate_uniform_int_uint8 2) 2 sample_rand [97, 98, 99] [0, 0, 0]
   \<and> fills_token_length (generate_sz_randomize 2) 2 sample_rand [97, 98, 99] [0, 0, 0]
   \<and> \<not> fills_token_length (generate_std_rand_uint8 2) 2 sample_rand (map of_nat [0..<256])
         [0, 0, 0]
   \<and> fills_token_length (generate_uniform_int_uint8 2) 2 sample_rand (map of_nat [0..<256])
         [0, 0, 0]
   \<and> fills_token_length (generate_sz_randomize 2) 2 sample_rand (map of_nat [0..<256])
         [0, 0, 0]"
proof -
  have h: "unat (2 :: size_t) \<le> length [0, 0, 0 :: byte]" by simp
  have n: "unat (2 :: size_t) \<noteq> 0" by simp
  have a: "length [97, 98, 99 :: byte] mod 256 \<noteq> 0" and a': "[97, 98, 99 :: byte] \<noteq> []"
    by simp_all
  have b: "length (map of_nat [0..<256] :: byte list) mod 256 = 0"
    and b': "(map of_nat [0..<256] :: byte list) \<noteq> []"
    by simp_all
  show ?thesis
    using h n a a' b b'
      random_generation_fills_token_length [OF h, of sample_externals "[]" sample_rand
        "[97, 98, 99]"]
      random_generation_fills_token_length [OF h, of sample_externals "[]" sample_rand
        "map of_nat [0..<256]"]
    by (elim conjE) simp
qed

text \<open>
  C4, as stated for every alphabet, fails. On the empty alphabet, and on the alphabet of
  all 256 byte values, the divisor of the \<^verbatim>\<open>std::rand % uint8\<close> callable is zero and the
  callable does not return \<open>token_length\<close>. On the empty alphabet the other two callables
  have a byte to write and no member of the alphabet to write.
\<close>

theorem generate_std_rand_uint8_counterexample:
  "map name (snd (random_generation_functions sample_externals 1 []))
     = [''std::rand % uint8, 1 chars'', ''std::uniform_int<uint8>, 1 chars'',
        ''sz::randomize, 1 chars'']
   \<and> operation (hd (snd (random_generation_functions sample_externals 1 [])))
        sample_rand [] (fst (random_generation_functions sample_externals 1 []))
       = Inl Division_by_zero
   \<and> operation (hd (snd (random_generation_functions sample_externals 1 [])))
        sample_rand (map of_nat [0..<256]) (fst (random_generation_functions sample_externals 1 []))
       = Inl Division_by_zero
   \<and> \<not> fills_token_length (operation (snd (random_generation_functions sample_externals 1 []) ! 1))
         1 sample_rand [] (fst (random_generation_functions sample_externals 1 []))
   \<and> \<not> fills_token_length (operation (snd (random_generation_functions sample_externals 1 []) ! 2))
         1 sample_rand [] (fst (random_generation_functions sample_externals 1 []))"
proof -
  have digits: "to_string (Suc 0) = ''1''"
    by code_simp
  have e: "max_alphabet_size [] = 0"
    by (simp add: max_alphabet_size_def)
  have f: "max_alphabet_size (map of_nat [0..<256]) = 0"
    by (simp add: max_alphabet_size_zero_iff)
  have one: "0 < unat (1 :: size_t)"
    by simp
  have buf: "unat (1 :: size_t) \<le> length (fst (random_generation_functions sample_externals 1 []))"
    by (rule random_generation_functions_buffer)
  have g: "\<not> fills_token_length g 1 sample_rand []
              (fst (random_generation_functions sample_externals 1 []))" for g
    by (rule fills_token_length_empty_alphabet [OF one buf])
  have "map name (snd (random_generation_functions sample_externals 1 []))
     = [''std::rand % uint8, 1 chars'', ''std::uniform_int<uint8>, 1 chars'',
        ''sz::randomize, 1 chars'']
   \<and> operation (hd (snd (random_generation_functions sample_externals 1 [])))
        sample_rand [] (fst (random_generation_functions sample_externals 1 []))
       = Inl Division_by_zero
   \<and> operation (hd (snd (random_generation_functions sample_externals 1 [])))
        sample_rand (map of_nat [0..<256]) (fst (random_generation_functions sample_externals 1 []))
       = Inl Division_by_zero"
    by (simp add: random_generation_functions_def tracked_def Let_def digits
        generate_std_rand_uint8_def e f rand_uint8_loop_zero_divisor)
  then show ?thesis using g by blast
qed

text \<open>
  C10, as the file has it. The divisor of the \<^verbatim>\<open>std::rand % uint8\<close> callable is the size
  of the alphabet modulo 256, and it is zero exactly when the size is a multiple of 256.
  When the size is not a multiple of 256, as every size between 1 and 255 is, the
  divisor is not zero, every index \<^verbatim>\<open>std::rand() % divisor\<close> is less than the size, and
  the callable returns without an error on a buffer of at least \<open>token_length\<close> bytes.
  When the size is a multiple of 256, zero or not, the divisor is zero, and the callable
  divides by zero as soon as it has a byte to write.
\<close>

theorem max_alphabet_size_divisor:
  "unat (max_alphabet_size alphabet) = length alphabet mod 256
   \<and> (max_alphabet_size alphabet = 0) = (length alphabet mod 256 = 0)
   \<and> (1 \<le> length alphabet \<and> length alphabet \<le> 255 \<longrightarrow> length alphabet mod 256 \<noteq> 0)
   \<and> (length alphabet mod 256 \<noteq> 0 \<longrightarrow>
        max_alphabet_size alphabet \<noteq> 0
        \<and> (\<forall>r. rand_index r (max_alphabet_size alphabet) < length alphabet)
        \<and> (unat token_length \<le> length buffer \<longrightarrow>
             (\<exists>buffer'. generate_std_rand_uint8 token_length rand alphabet buffer
                          = Inr (buffer', token_length))))
   \<and> (length alphabet mod 256 = 0 \<longrightarrow>
        max_alphabet_size alphabet = 0
        \<and> (0 < unat token_length \<longrightarrow>
             generate_std_rand_uint8 token_length rand alphabet buffer = Inl Division_by_zero))"
proof (intro conjI impI)
  show "unat (max_alphabet_size alphabet) = length alphabet mod 256"
    by (rule unat_max_alphabet_size)
  show "(max_alphabet_size alphabet = 0) = (length alphabet mod 256 = 0)"
    by (rule max_alphabet_size_zero_iff)
next
  assume "1 \<le> length alphabet \<and> length alphabet \<le> 255"
  then have "0 < length alphabet" and "length alphabet < 256" by auto
  then show "length alphabet mod 256 \<noteq> 0" by simp
next
  assume h: "length alphabet mod 256 \<noteq> 0"
  then show "max_alphabet_size alphabet \<noteq> 0"
    by (simp add: max_alphabet_size_zero_iff)
  show "\<forall>r. rand_index r (max_alphabet_size alphabet) < length alphabet"
    using rand_index_less [OF h] by blast
  assume b: "unat token_length \<le> length buffer"
  show "\<exists>buffer'. generate_std_rand_uint8 token_length rand alphabet buffer
                          = Inr (buffer', token_length)"
    using generate_std_rand_uint8_fills [OF h b, of rand] by blast
next
  assume z: "length alphabet mod 256 = 0"
  then show m: "max_alphabet_size alphabet = 0"
    by (simp add: max_alphabet_size_zero_iff)
  assume "0 < unat token_length"
  then show "generate_std_rand_uint8 token_length rand alphabet buffer = Inl Division_by_zero"
    using m by (simp add: generate_std_rand_uint8_def rand_uint8_loop_zero_divisor)
qed

theorem max_alphabet_size_divisor_witness:
  "1 \<le> length [97, 98, 99 :: byte] \<and> length [97, 98, 99 :: byte] \<le> 255
   \<and> max_alphabet_size [97, 98, 99] \<noteq> 0
   \<and> rand_index (sample_rand 0) (max_alphabet_size [97, 98, 99]) < length [97, 98, 99 :: byte]
   \<and> length (map of_nat [0..<300] :: byte list) mod 256 \<noteq> 0
   \<and> max_alphabet_size (map of_nat [0..<300]) \<noteq> 0
   \<and> rand_index (sample_rand 1) (max_alphabet_size (map of_nat [0..<300]))
       < length (map of_nat [0..<300] :: byte list)
   \<and> length (map of_nat [0..<256] :: byte list) mod 256 = 0
   \<and> max_alphabet_size (map of_nat [0..<256]) = 0
   \<and> generate_std_rand_uint8 1 sample_rand (map of_nat [0..<256]) [0] = Inl Division_by_zero"
proof -
  have h1: "1 \<le> length [97, 98, 99 :: byte] \<and> length [97, 98, 99 :: byte] \<le> 255" by simp
  have h2: "length (map of_nat [0..<256] :: byte list) mod 256 = 0" by simp
  have h3: "0 < unat (1 :: size_t)" by simp
  have h4: "length (map of_nat [0..<300] :: byte list) mod 256 \<noteq> 0" by simp
  note a = max_alphabet_size_divisor [of "[97, 98, 99]" 1 "[0]" sample_rand]
  note b = max_alphabet_size_divisor [of "map of_nat [0..<300]" 1 "[0]" sample_rand]
  note c = max_alphabet_size_divisor [of "map of_nat [0..<256]" 1 "[0]" sample_rand]
  from h1 a have a2: "max_alphabet_size [97, 98, 99] \<noteq> 0
      \<and> (\<forall>r. rand_index r (max_alphabet_size [97, 98, 99]) < length [97, 98, 99 :: byte])"
    by simp
  from h4 b have b2: "max_alphabet_size (map of_nat [0..<300]) \<noteq> 0
      \<and> (\<forall>r. rand_index r (max_alphabet_size (map of_nat [0..<300]))
            < length (map of_nat [0..<300] :: byte list))"
    by simp
  from h2 h3 c have c2: "max_alphabet_size (map of_nat [0..<256]) = 0
      \<and> generate_std_rand_uint8 1 sample_rand (map of_nat [0..<256]) [0] = Inl Division_by_zero"
    by simp
  from a2 have a3: "rand_index (sample_rand 0) (max_alphabet_size [97, 98, 99])
                      < length [97, 98, 99 :: byte]"
    by simp
  from b2 have b3: "rand_index (sample_rand 1) (max_alphabet_size (map of_nat [0..<300]))
                      < length (map of_nat [0..<300] :: byte list)"
    by simp
  show ?thesis
    using h1 h2 h4 a2 a3 b2 b3 c2 by simp
qed

text \<open>
  C10, as stated, makes a size between 1 and 255 necessary. It is not: an alphabet of 300
  bytes is outside that range, its divisor is 44, every index is in bounds, and the
  callable returns.
\<close>

theorem max_alphabet_size_counterexample:
  "\<not> (1 \<le> length (map of_nat [0..<300] :: byte list)
        \<and> length (map of_nat [0..<300] :: byte list) \<le> 255)
   \<and> max_alphabet_size (map of_nat [0..<300]) = 44
   \<and> rand_index (sample_rand 0) (max_alphabet_size (map of_nat [0..<300])) = 25
   \<and> rand_index (sample_rand 1) (max_alphabet_size (map of_nat [0..<300])) = 22
   \<and> generate_std_rand_uint8 2 sample_rand (map of_nat [0..<300]) [0, 0] = Inr ([25, 22], 2)
   \<and> fills_token_length (generate_std_rand_uint8 2) 2 sample_rand (map of_nat [0..<300]) [0, 0]"
proof -
  have m: "max_alphabet_size (map of_nat [0..<300]) = 44"
    by (simp add: max_alphabet_size_def)
  have r0: "rand_index (sample_rand 0) 44 = 25"
    by (simp add: rand_index_def sample_rand_def)
  have r1: "rand_index (sample_rand (Suc 0)) 44 = 22"
    by (simp add: rand_index_def sample_rand_def)
  have l2: "rand_uint8_loop sample_rand (map of_nat [0..<300]) 44 2 (Suc (Suc 0)) [25, 22]
              = Inr [25, 22]"
    by (rule rand_uint8_loop_done) simp
  have l1: "rand_uint8_loop sample_rand (map of_nat [0..<300]) 44 2 (Suc 0) [25, 0]
              = Inr [25, 22]"
    by (subst rand_uint8_loop.simps) (simp add: r1 l2)
  have l0: "rand_uint8_loop sample_rand (map of_nat [0..<300]) 44 2 0 [0, 0] = Inr [25, 22]"
    by (subst rand_uint8_loop.simps) (simp add: r0 l1)
  have g: "generate_std_rand_uint8 2 sample_rand (map of_nat [0..<300]) [0, 0]
             = Inr ([25, 22], 2)"
    by (simp add: generate_std_rand_uint8_def m l0)
  have f: "fills_token_length (generate_std_rand_uint8 2) 2 sample_rand
             (map of_nat [0..<300]) [0, 0]"
    by (simp add: generate_std_rand_uint8_fills_iff)
  show ?thesis using m r0 r1 g f by simp
qed

subsection \<open>The registries\<close>

lemma filter_flagged_checksum:
  "\<not> default_flag E \<Longrightarrow>
   map name (filter is_baseline (checksum_functions E)) =
     [''sz_checksum_serial'']
     @ (if sz_use_haswell E then [''sz_checksum_haswell''] else [])
     @ (if sz_use_skylake E then [''sz_checksum_skylake''] else [])
     @ (if sz_use_ice E then [''sz_checksum_ice''] else [])
     @ (if sz_use_neon E then [''sz_checksum_neon''] else [])"
  by (simp add: checksum_functions_def tracked_def tracked_flagged_def)

lemma filter_flagged_hashing:
  "\<not> default_flag E \<Longrightarrow> filter is_baseline (hashing_functions E) = []"
  by (simp add: hashing_functions_def tracked_def)

lemma filter_flagged_equality:
  "\<not> default_flag E \<Longrightarrow>
   map name (filter is_baseline (equality_functions E)) =
     [''sz_equal_serial'']
     @ (if sz_use_haswell E then [''sz_equal_haswell''] else [])
     @ (if sz_use_skylake E then [''sz_equal_skylake''] else [])"
  by (simp add: equality_functions_def tracked_def tracked_flagged_def)

lemma filter_flagged_ordering:
  "\<not> default_flag E \<Longrightarrow>
   map name (filter is_baseline (ordering_functions E)) =
     [''sz_order_serial'']
     @ (if sz_use_haswell E then [''sz_order_haswell''] else [])
     @ (if sz_use_skylake E then [''sz_order_skylake''] else [])"
  by (simp add: ordering_functions_def tracked_def tracked_flagged_def)

text \<open>
  C2, as the file has it. Where a flag that is not given is false: the registry of
  \<^verbatim>\<open>hashing_functions\<close> has no flagged entry. The registry of \<^verbatim>\<open>checksum_functions\<close>
  flags \<^verbatim>\<open>sz_checksum_serial\<close> and one more entry for each of \<^verbatim>\<open>SZ_USE_HASWELL\<close>,
  \<^verbatim>\<open>SZ_USE_SKYLAKE\<close>, \<^verbatim>\<open>SZ_USE_ICE\<close> and \<^verbatim>\<open>SZ_USE_NEON\<close> that the build enables. The
  registries of \<^verbatim>\<open>equality_functions\<close> and \<^verbatim>\<open>ordering_functions\<close>, which have no
  entry for \<^verbatim>\<open>SZ_USE_ICE\<close> or \<^verbatim>\<open>SZ_USE_NEON\<close>, flag \<^verbatim>\<open>sz_equal_serial\<close> and
  \<^verbatim>\<open>sz_order_serial\<close> and one more entry for each of \<^verbatim>\<open>SZ_USE_HASWELL\<close> and
  \<^verbatim>\<open>SZ_USE_SKYLAKE\<close> that the build enables. So the checksum registry has exactly
  one flagged entry in a build with none of the four switches, and the equality and
  ordering registries have exactly one in a build with neither of the two.
\<close>

theorem registries_flagged_entries:
  assumes "\<not> default_flag E"
  shows "length (filter is_baseline (hashing_functions E)) = 0
    \<and> length (filter is_baseline (checksum_functions E)) =
        1 + of_bool (sz_use_haswell E) + of_bool (sz_use_skylake E)
          + of_bool (sz_use_ice E) + of_bool (sz_use_neon E)
    \<and> length (filter is_baseline (equality_functions E)) =
        1 + of_bool (sz_use_haswell E) + of_bool (sz_use_skylake E)
    \<and> length (filter is_baseline (ordering_functions E)) =
        1 + of_bool (sz_use_haswell E) + of_bool (sz_use_skylake E)
    \<and> (\<not> sz_use_haswell E \<and> \<not> sz_use_skylake E \<and> \<not> sz_use_ice E \<and> \<not> sz_use_neon E \<longrightarrow>
          map name (filter is_baseline (checksum_functions E)) = [''sz_checksum_serial'']
        \<and> map name (filter is_baseline (equality_functions E)) = [''sz_equal_serial'']
        \<and> map name (filter is_baseline (ordering_functions E)) = [''sz_order_serial''])
    \<and> (\<not> sz_use_haswell E \<and> \<not> sz_use_skylake E \<longrightarrow>
          map name (filter is_baseline (equality_functions E)) = [''sz_equal_serial'']
        \<and> map name (filter is_baseline (ordering_functions E)) = [''sz_order_serial''])"
proof -
  have "length (map name (filter is_baseline (checksum_functions E))) =
        1 + of_bool (sz_use_haswell E) + of_bool (sz_use_skylake E)
          + of_bool (sz_use_ice E) + of_bool (sz_use_neon E)"
    unfolding filter_flagged_checksum [OF assms] by simp
  moreover have "length (map name (filter is_baseline (equality_functions E))) =
        1 + of_bool (sz_use_haswell E) + of_bool (sz_use_skylake E)"
    unfolding filter_flagged_equality [OF assms] by simp
  moreover have "length (map name (filter is_baseline (ordering_functions E))) =
        1 + of_bool (sz_use_haswell E) + of_bool (sz_use_skylake E)"
    unfolding filter_flagged_ordering [OF assms] by simp
  moreover have "length (filter is_baseline (hashing_functions E)) = 0"
    by (simp add: filter_flagged_hashing [OF assms])
  moreover have "\<not> sz_use_haswell E \<and> \<not> sz_use_skylake E \<and> \<not> sz_use_ice E \<and> \<not> sz_use_neon E \<longrightarrow>
          map name (filter is_baseline (checksum_functions E)) = [''sz_checksum_serial'']
        \<and> map name (filter is_baseline (equality_functions E)) = [''sz_equal_serial'']
        \<and> map name (filter is_baseline (ordering_functions E)) = [''sz_order_serial'']"
    by (simp add: filter_flagged_checksum [OF assms] filter_flagged_equality [OF assms]
        filter_flagged_ordering [OF assms])
  moreover have "\<not> sz_use_haswell E \<and> \<not> sz_use_skylake E \<longrightarrow>
          map name (filter is_baseline (equality_functions E)) = [''sz_equal_serial'']
        \<and> map name (filter is_baseline (ordering_functions E)) = [''sz_order_serial'']"
    by (simp add: filter_flagged_equality [OF assms] filter_flagged_ordering [OF assms])
  ultimately show ?thesis by simp
qed

theorem registries_flagged_entries_witness:
  "\<not> default_flag sample_externals
   \<and> \<not> sz_use_haswell sample_externals \<and> \<not> sz_use_skylake sample_externals
   \<and> \<not> sz_use_ice sample_externals \<and> \<not> sz_use_neon sample_externals
   \<and> length (filter is_baseline (hashing_functions sample_externals)) = 0
   \<and> length (filter is_baseline (checksum_functions sample_externals)) = 1
   \<and> length (filter is_baseline (equality_functions sample_externals)) = 1
   \<and> length (filter is_baseline (ordering_functions sample_externals)) = 1
   \<and> map name (filter is_baseline (checksum_functions sample_externals)) = [''sz_checksum_serial'']
   \<and> map name (filter is_baseline (equality_functions sample_externals)) = [''sz_equal_serial'']
   \<and> map name (filter is_baseline (ordering_functions sample_externals)) = [''sz_order_serial'']
   \<and> \<not> default_flag (sample_externals\<lparr>sz_use_ice := True, sz_use_neon := True\<rparr>)
   \<and> length (filter is_baseline
        (checksum_functions (sample_externals\<lparr>sz_use_ice := True, sz_use_neon := True\<rparr>))) = 3
   \<and> length (filter is_baseline
        (equality_functions (sample_externals\<lparr>sz_use_ice := True, sz_use_neon := True\<rparr>))) = 1
   \<and> length (filter is_baseline
        (ordering_functions (sample_externals\<lparr>sz_use_ice := True, sz_use_neon := True\<rparr>))) = 1"
proof -
  have h: "\<not> default_flag sample_externals"
    by (simp add: sample_externals_def)
  have h': "\<not> default_flag (sample_externals\<lparr>sz_use_ice := True, sz_use_neon := True\<rparr>)"
    by (simp add: sample_externals_def)
  have b': "\<not> sz_use_haswell (sample_externals\<lparr>sz_use_ice := True, sz_use_neon := True\<rparr>)
           \<and> \<not> sz_use_skylake (sample_externals\<lparr>sz_use_ice := True, sz_use_neon := True\<rparr>)"
    by (simp add: sample_externals_def)
  have b: "\<not> sz_use_haswell sample_externals \<and> \<not> sz_use_skylake sample_externals
           \<and> \<not> sz_use_ice sample_externals \<and> \<not> sz_use_neon sample_externals"
    by (simp add: sample_externals_def)
  show ?thesis
    using h b h' b' registries_flagged_entries [OF h] registries_flagged_entries [OF h']
    by simp
qed

text \<open>
  C2, as stated, fails on \<^verbatim>\<open>hashing_functions\<close>: neither of its two entries gives the
  flag, so the registry has no flagged entry where the flag defaults to false, and two
  where it defaults to true; never exactly one.
\<close>

theorem hashing_functions_flagged_counterexample:
  "map is_baseline (hashing_functions (sample_externals\<lparr>default_flag := False\<rparr>)) = [False, False]
   \<and> length (filter is_baseline (hashing_functions (sample_externals\<lparr>default_flag := False\<rparr>))) = 0
   \<and> map is_baseline (hashing_functions (sample_externals\<lparr>default_flag := True\<rparr>)) = [True, True]
   \<and> length (filter is_baseline (hashing_functions (sample_externals\<lparr>default_flag := True\<rparr>))) = 2"
  by (simp add: hashing_functions_def tracked_def)

subsection \<open>The benchmark drivers\<close>

lemma bench_Nil: "bench E [] = []"
  by (simp add: bench_def)

lemma bench_nonempty:
  "strings \<noteq> [] \<Longrightarrow>
   bench E strings =
     [Bench_unary_functions strings (checksum_functions E),
      Bench_unary_functions strings (hashing_functions E),
      Bench_binary_functions strings (equality_functions E),
      Bench_binary_functions strings (ordering_functions E),
      Bench_unary_functions strings
        [tracked E ''std::string -> std::string_view'' (\<lambda>s. of_nat (length s))],
      Bench_unary_functions strings
        [tracked E ''sz::string -> std::string_view'' (\<lambda>s. of_nat (length s))]]"
  by (simp add: bench_def bench_dereferencing_def)

lemma filter_by_length_Nil: "filter_by_length [] n = []"
  by (simp add: filter_by_length_def)

lemma bench_token_lengths_unfold:
  "bench_token_lengths E toks [1, 2, 3, 4, 5, 6, 7, 8, 16, 32] =
     Printf ''Benchmarking on real words of length %zu:\<newline>'' [1]
       # bench E (filter_by_length toks 1)
     @ Printf ''Benchmarking on real words of length %zu:\<newline>'' [2]
       # bench E (filter_by_length toks 2)
     @ Printf ''Benchmarking on real words of length %zu:\<newline>'' [3]
       # bench E (filter_by_length toks 3)
     @ Printf ''Benchmarking on real words of length %zu:\<newline>'' [4]
       # bench E (filter_by_length toks 4)
     @ Printf ''Benchmarking on real words of length %zu:\<newline>'' [5]
       # bench E (filter_by_length toks 5)
     @ Printf ''Benchmarking on real words of length %zu:\<newline>'' [6]
       # bench E (filter_by_length toks 6)
     @ Printf ''Benchmarking on real words of length %zu:\<newline>'' [7]
       # bench E (filter_by_length toks 7)
     @ Printf ''Benchmarking on real words of length %zu:\<newline>'' [8]
       # bench E (filter_by_length toks 8)
     @ Printf ''Benchmarking on real words of length %zu:\<newline>'' [16]
       # bench E (filter_by_length toks 16)
     @ Printf ''Benchmarking on real words of length %zu:\<newline>'' [32]
       # bench E (filter_by_length toks 32)"
  by (simp add: bench_token_lengths_def)

lemma bench_token_lengths_Nil:
  "bench_token_lengths E [] ns =
     map (\<lambda>token_length. Printf ''Benchmarking on real words of length %zu:\<newline>'' [token_length]) ns"
  by (induction ns) (simp_all add: bench_token_lengths_def filter_by_length_Nil bench_Nil)

lemma reported_Nil: "reported R [] = []"
  by simp

lemma bench_on_input_data_Some:
  "prepare_benchmark_environment E argc argv = Some dataset \<Longrightarrow>
   bench_on_input_data E argc argv = Some (
     [Printf ''Benchmarking on real words:\<newline>'' []]
     @ bench E (tokens dataset)
     @ [Printf ''Benchmarking on real lines:\<newline>'' []]
     @ bench E (lines dataset)
     @ [Printf ''Benchmarking on entire dataset:\<newline>'' []]
     @ bench E [text_view dataset]
     @ bench_token_lengths E (tokens dataset) [1, 2, 3, 4, 5, 6, 7, 8, 16, 32])"
  by (simp add: bench_on_input_data_def)

text \<open>
  C5. On a corpus with no element \<^verbatim>\<open>bench\<close> returns at once: it calls no runner, so no
  tracked function is run and nothing is reported, whatever the runners would report;
  the bytes processed and the mismatches of the run add up to zero. The run goes on:
  when the dataset has no tokens, \<^verbatim>\<open>bench_on_input_data\<close> still benchmarks the lines and
  the whole text, and goes through every token length.
\<close>

theorem bench_empty_corpus:
  "bench E [] = []
   \<and> reported R (bench E []) = []
   \<and> sum_list (map bytes_processed (reported R (bench E []))) = 0
   \<and> sum_list (map mismatch_count (reported R (bench E []))) = 0
   \<and> (prepare_benchmark_environment E argc argv = Some dataset \<and> tokens dataset = [] \<longrightarrow>
        bench_on_input_data E argc argv = Some (
          [Printf ''Benchmarking on real words:\<newline>'' [],
           Printf ''Benchmarking on real lines:\<newline>'' []]
          @ bench E (lines dataset)
          @ [Printf ''Benchmarking on entire dataset:\<newline>'' []]
          @ bench E [text_view dataset]
          @ map (\<lambda>token_length.
                   Printf ''Benchmarking on real words of length %zu:\<newline>'' [token_length])
              [1, 2, 3, 4, 5, 6, 7, 8, 16, 32]))"
proof -
  have "bench_on_input_data E argc argv = Some (
          [Printf ''Benchmarking on real words:\<newline>'' [],
           Printf ''Benchmarking on real lines:\<newline>'' []]
          @ bench E (lines dataset)
          @ [Printf ''Benchmarking on entire dataset:\<newline>'' []]
          @ bench E [text_view dataset]
          @ map (\<lambda>token_length.
                   Printf ''Benchmarking on real words of length %zu:\<newline>'' [token_length])
              [1, 2, 3, 4, 5, 6, 7, 8, 16, 32])"
    if p: "prepare_benchmark_environment E argc argv = Some dataset" and t: "tokens dataset = []"
    unfolding bench_on_input_data_Some [OF p] t bench_token_lengths_Nil bench_Nil
    by simp
  then show ?thesis by (simp add: bench_Nil)
qed

theorem bench_empty_corpus_witness:
  "prepare_benchmark_environment sample_externals_no_tokens 2 [''bench_token'', ''words.txt'']
     = Some (sample_dataset\<lparr>tokens := []\<rparr>)
   \<and> tokens (sample_dataset\<lparr>tokens := []\<rparr>) = []
   \<and> reported sample_runners (bench sample_externals_no_tokens []) = []
   \<and> map_option (map call_corpus)
        (bench_on_input_data sample_externals_no_tokens 2 [''bench_token'', ''words.txt''])
     = Some ([None, None]
        @ replicate 6 (Some (lines sample_dataset))
        @ [None]
        @ replicate 6 (Some [text_view sample_dataset])
        @ replicate 10 None)"
proof -
  have p: "prepare_benchmark_environment sample_externals_no_tokens 2 [''bench_token'', ''words.txt'']
             = Some (sample_dataset\<lparr>tokens := []\<rparr>)"
    by (simp add: sample_externals_no_tokens_def)
  have t: "tokens (sample_dataset\<lparr>tokens := []\<rparr>) = []"
    by simp
  have l: "lines sample_dataset \<noteq> []"
    by (simp add: sample_dataset_def)
  have six: "replicate 6 x = [x, x, x, x, x, x]" for x :: "string_view list option"
    by (simp add: numeral_eq_Suc)
  have ten: "replicate 10 x = [x, x, x, x, x, x, x, x, x, x]" for x :: "string_view list option"
    by (simp add: numeral_eq_Suc)
  show ?thesis
    using p t
      bench_empty_corpus [of sample_externals_no_tokens sample_runners 2
        "[''bench_token'', ''words.txt'']" "sample_dataset\<lparr>tokens := []\<rparr>"]
    by (simp add: bench_nonempty [OF l] bench_nonempty [of "[x]" for x] six ten)
qed

text \<open>
  C6. On a corpus that is not empty \<^verbatim>\<open>bench\<close> makes six runner calls, in this order:
  checksum, hashing, equality, ordering, then the dereferencing check for
  \<^verbatim>\<open>std::string\<close> and for \<^verbatim>\<open>sz::string\<close>. \<^verbatim>\<open>bench_on_input_data\<close> gives \<^verbatim>\<open>bench\<close> the
  tokens, the lines, the whole text as a corpus of one element, and then the tokens of
  length 1, 2, 3, 4, 5, 6, 7, 8, 16 and 32, in this order.
\<close>

theorem bench_runs_in_order:
  "(strings \<noteq> [] \<longrightarrow>
      bench E strings =
        [Bench_unary_functions strings (checksum_functions E),
         Bench_unary_functions strings (hashing_functions E),
         Bench_binary_functions strings (equality_functions E),
         Bench_binary_functions strings (ordering_functions E),
         Bench_unary_functions strings
           [tracked E ''std::string -> std::string_view'' (\<lambda>s. of_nat (length s))],
         Bench_unary_functions strings
           [tracked E ''sz::string -> std::string_view'' (\<lambda>s. of_nat (length s))]])
   \<and> (prepare_benchmark_environment E argc argv = Some dataset \<longrightarrow>
        bench_on_input_data E argc argv = Some (
          Printf ''Benchmarking on real words:\<newline>'' []
            # bench E (tokens dataset)
          @ Printf ''Benchmarking on real lines:\<newline>'' []
            # bench E (lines dataset)
          @ Printf ''Benchmarking on entire dataset:\<newline>'' []
            # bench E [text_view dataset]
          @ Printf ''Benchmarking on real words of length %zu:\<newline>'' [1]
            # bench E (filter_by_length (tokens dataset) 1)
          @ Printf ''Benchmarking on real words of length %zu:\<newline>'' [2]
            # bench E (filter_by_length (tokens dataset) 2)
          @ Printf ''Benchmarking on real words of length %zu:\<newline>'' [3]
            # bench E (filter_by_length (tokens dataset) 3)
          @ Printf ''Benchmarking on real words of length %zu:\<newline>'' [4]
            # bench E (filter_by_length (tokens dataset) 4)
          @ Printf ''Benchmarking on real words of length %zu:\<newline>'' [5]
            # bench E (filter_by_length (tokens dataset) 5)
          @ Printf ''Benchmarking on real words of length %zu:\<newline>'' [6]
            # bench E (filter_by_length (tokens dataset) 6)
          @ Printf ''Benchmarking on real words of length %zu:\<newline>'' [7]
            # bench E (filter_by_length (tokens dataset) 7)
          @ Printf ''Benchmarking on real words of length %zu:\<newline>'' [8]
            # bench E (filter_by_length (tokens dataset) 8)
          @ Printf ''Benchmarking on real words of length %zu:\<newline>'' [16]
            # bench E (filter_by_length (tokens dataset) 16)
          @ Printf ''Benchmarking on real words of length %zu:\<newline>'' [32]
            # bench E (filter_by_length (tokens dataset) 32)))"
proof (intro conjI impI)
  assume "strings \<noteq> []"
  then show "bench E strings =
        [Bench_unary_functions strings (checksum_functions E),
         Bench_unary_functions strings (hashing_functions E),
         Bench_binary_functions strings (equality_functions E),
         Bench_binary_functions strings (ordering_functions E),
         Bench_unary_functions strings
           [tracked E ''std::string -> std::string_view'' (\<lambda>s. of_nat (length s))],
         Bench_unary_functions strings
           [tracked E ''sz::string -> std::string_view'' (\<lambda>s. of_nat (length s))]]"
    by (rule bench_nonempty)
next
  assume p: "prepare_benchmark_environment E argc argv = Some dataset"
  show "bench_on_input_data E argc argv = Some (
          Printf ''Benchmarking on real words:\<newline>'' []
            # bench E (tokens dataset)
          @ Printf ''Benchmarking on real lines:\<newline>'' []
            # bench E (lines dataset)
          @ Printf ''Benchmarking on entire dataset:\<newline>'' []
            # bench E [text_view dataset]
          @ Printf ''Benchmarking on real words of length %zu:\<newline>'' [1]
            # bench E (filter_by_length (tokens dataset) 1)
          @ Printf ''Benchmarking on real words of length %zu:\<newline>'' [2]
            # bench E (filter_by_length (tokens dataset) 2)
          @ Printf ''Benchmarking on real words of length %zu:\<newline>'' [3]
            # bench E (filter_by_length (tokens dataset) 3)
          @ Printf ''Benchmarking on real words of length %zu:\<newline>'' [4]
            # bench E (filter_by_length (tokens dataset) 4)
          @ Printf ''Benchmarking on real words of length %zu:\<newline>'' [5]
            # bench E (filter_by_length (tokens dataset) 5)
          @ Printf ''Benchmarking on real words of length %zu:\<newline>'' [6]
            # bench E (filter_by_length (tokens dataset) 6)
          @ Printf ''Benchmarking on real words of length %zu:\<newline>'' [7]
            # bench E (filter_by_length (tokens dataset) 7)
          @ Printf ''Benchmarking on real words of length %zu:\<newline>'' [8]
            # bench E (filter_by_length (tokens dataset) 8)
          @ Printf ''Benchmarking on real words of length %zu:\<newline>'' [16]
            # bench E (filter_by_length (tokens dataset) 16)
          @ Printf ''Benchmarking on real words of length %zu:\<newline>'' [32]
            # bench E (filter_by_length (tokens dataset) 32))"
    unfolding bench_on_input_data_Some [OF p] bench_token_lengths_unfold by simp
qed

theorem bench_runs_in_order_witness:
  "tokens sample_dataset \<noteq> []
   \<and> map call_names (bench sample_externals (tokens sample_dataset)) =
       [[''std::accumulate'', ''sz_checksum_serial''],
        [''sz_hash_serial'', ''std::hash''],
        [''std::string_view.=='', ''sz_equal_serial'', ''memcmp''],
        [''std::string_view.compare'', ''sz_order_serial'', ''memcmp''],
        [''std::string -> std::string_view''],
        [''sz::string -> std::string_view'']]
   \<and> prepare_benchmark_environment sample_externals 2 [''bench_token'', ''words.txt'']
       = Some sample_dataset
   \<and> map_option (map call_corpus)
        (bench_on_input_data sample_externals 2 [''bench_token'', ''words.txt''])
     = Some ([None] @ replicate 6 (Some (tokens sample_dataset))
        @ [None] @ replicate 6 (Some (lines sample_dataset))
        @ [None] @ replicate 6 (Some [text_view sample_dataset])
        @ [None, None]
        @ [None] @ replicate 6 (Some (tokens sample_dataset))
        @ replicate 7 None)"
proof -
  have n: "tokens sample_dataset \<noteq> []"
    by (simp add: sample_dataset_def)
  have l: "lines sample_dataset \<noteq> []"
    by (simp add: sample_dataset_def)
  have p: "prepare_benchmark_environment sample_externals 2 [''bench_token'', ''words.txt'']
             = Some sample_dataset"
    by (simp add: sample_externals_def)
  have f: "filter_by_length (tokens sample_dataset) k
             = (if k = 3 then tokens sample_dataset else [])" for k
    by (simp add: filter_by_length_def sample_dataset_def)
  have six: "replicate 6 x = [x, x, x, x, x, x]" for x :: "string_view list option"
    by (simp add: numeral_eq_Suc)
  have seven: "replicate 7 x = [x, x, x, x, x, x, x]" for x :: "string_view list option"
    by (simp add: numeral_eq_Suc)
  have names: "map call_names (bench sample_externals (tokens sample_dataset)) =
       [[''std::accumulate'', ''sz_checksum_serial''],
        [''sz_hash_serial'', ''std::hash''],
        [''std::string_view.=='', ''sz_equal_serial'', ''memcmp''],
        [''std::string_view.compare'', ''sz_order_serial'', ''memcmp''],
        [''std::string -> std::string_view''],
        [''sz::string -> std::string_view'']]"
    using n bench_runs_in_order [of "tokens sample_dataset" sample_externals]
    by (simp add: checksum_functions_def hashing_functions_def equality_functions_def
        ordering_functions_def tracked_def tracked_flagged_def sample_externals_def)
  have corpora: "map_option (map call_corpus)
        (bench_on_input_data sample_externals 2 [''bench_token'', ''words.txt''])
     = Some ([None] @ replicate 6 (Some (tokens sample_dataset))
        @ [None] @ replicate 6 (Some (lines sample_dataset))
        @ [None] @ replicate 6 (Some [text_view sample_dataset])
        @ [None, None]
        @ [None] @ replicate 6 (Some (tokens sample_dataset))
        @ replicate 7 None)"
    using p bench_runs_in_order [of "tokens sample_dataset" sample_externals 2
        "[''bench_token'', ''words.txt'']" sample_dataset]
    by (simp add: f bench_Nil bench_nonempty [OF n] bench_nonempty [OF l]
        bench_nonempty [of "[x]" for x] six seven)
  show ?thesis using n p names corpora by simp
qed

text \<open>
  C7. With fewer than two arguments \<^verbatim>\<open>main\<close> takes the synthetic-data branch, which
  does nothing: the run is the two opening lines and the closing line, with no runner
  call, and the exit code is 0. Whenever \<^verbatim>\<open>main\<close> returns, it returns 0.
\<close>

theorem main_exit_code:
  "(argc < 2 \<longrightarrow>
      main E argc argv =
        ([Printf ''StringZilla. Starting token-level benchmarks.\<newline>'' [],
          Printf ''- Seconds per benchmark: %zu\<newline>'' [seconds_per_benchmark E],
          Printf ''All benchmarks passed.\<newline>'' []], Some 0))
   \<and> bench_on_synthetic_data = []
   \<and> (snd (main E argc argv) = Some code \<longrightarrow> code = 0)"
  by (auto simp: main_def bench_on_synthetic_data_def Let_def split: option.splits if_splits)

theorem main_exit_code_witness:
  "(1 :: int) < 2
   \<and> main sample_externals 1 [''bench_token''] =
        ([Printf ''StringZilla. Starting token-level benchmarks.\<newline>'' [],
          Printf ''- Seconds per benchmark: %zu\<newline>'' [10],
          Printf ''All benchmarks passed.\<newline>'' []], Some 0)
   \<and> snd (main sample_externals 2 [''bench_token'', ''words.txt'']) = Some 0"
proof -
  have s: "seconds_per_benchmark sample_externals = 10"
    by (simp add: sample_externals_def)
  have r: "snd (main sample_externals 2 [''bench_token'', ''words.txt'']) = Some 0"
    by (simp add: main_def bench_on_input_data_def sample_externals_def)
  show ?thesis
    using s r main_exit_code [of 1 sample_externals "[''bench_token'']"]
      main_exit_code [of 2 sample_externals "[''bench_token'', ''words.txt'']" 0]
    by simp
qed

end
